theory Spec2Isabelle
  imports Main
begin

section \<open>Python values and strings\<close>

text \<open>
  The scrapers read untyped cells: a spreadsheet or CSV cell as pandas hands it over, a JSON
  attribute, the text of an HTML table cell. A cell is modelled by the four kinds of value
  the code distinguishes:
  \<^item> \<open>RNone\<close>: Python's \<^verbatim>\<open>None\<close> (also what \<^verbatim>\<open>row.get(key)\<close> returns for a missing column);
  \<^item> \<open>RNaN\<close>: the float NaN pandas puts in an empty cell;
  \<^item> \<open>RStr s\<close>: a string;
  \<^item> \<open>RObj t s\<close>: any other scalar (a number, a boolean, a timestamp), given by its truth
    value \<open>t\<close> and by the text \<open>s\<close> that \<^verbatim>\<open>str()\<close> prints for it. Such a value is not a
    string: it has no \<^verbatim>\<open>.lower()\<close>, and it is never equal to \<^verbatim>\<open>''\<close>.

  Strings are lists of characters read as ASCII code points; the case conversions act on
  the 26 letters, and text outside ASCII is outside the model.
\<close>

datatype raw = RNone | RNaN | RStr string | RObj bool string

datatype py_error = AttributeError | ValueError | TypeError | OverflowError

fun truthy :: "raw \<Rightarrow> bool" where
  "truthy RNone = False"
| "truthy RNaN = True"
| "truthy (RStr s) = (s \<noteq> [])"
| "truthy (RObj t s) = t"

fun pd_isna :: "raw \<Rightarrow> bool" where
  "pd_isna RNone = True"
| "pd_isna RNaN = True"
| "pd_isna (RStr s) = False"
| "pd_isna (RObj t s) = False"

fun py_str :: "raw \<Rightarrow> string" where
  "py_str RNone = ''None''"
| "py_str RNaN = ''nan''"
| "py_str (RStr s) = s"
| "py_str (RObj t s) = s"

definition is_digit :: "char \<Rightarrow> bool" where
  "is_digit c = (c \<in> set ''0123456789'')"

text \<open>The characters \<^verbatim>\<open>str.strip()\<close> removes and \<^verbatim>\<open>\s\<close> matches, within ASCII.\<close>

definition is_space :: "char \<Rightarrow> bool" where
  "is_space c = (c \<in> set [CHR 0x09, CHR 0x0A, CHR 0x0B, CHR 0x0C, CHR 0x0D,
                            CHR 0x1C, CHR 0x1D, CHR 0x1E, CHR 0x1F, CHR '' ''])"

definition lower_char :: "char \<Rightarrow> char" where
  "lower_char c =
     (case map_of (zip ''ABCDEFGHIJKLMNOPQRSTUVWXYZ'' ''abcdefghijklmnopqrstuvwxyz'') c of
        None \<Rightarrow> c | Some d \<Rightarrow> d)"

definition upper_char :: "char \<Rightarrow> char" where
  "upper_char c =
     (case map_of (zip ''abcdefghijklmnopqrstuvwxyz'' ''ABCDEFGHIJKLMNOPQRSTUVWXYZ'') c of
        None \<Rightarrow> c | Some d \<Rightarrow> d)"

definition lower :: "string \<Rightarrow> string" where
  "lower s = map lower_char s"

definition upper :: "string \<Rightarrow> string" where
  "upper s = map upper_char s"

definition strip :: "string \<Rightarrow> string" where
  "strip s = rev (dropWhile is_space (rev (dropWhile is_space s)))"

text \<open>\<^verbatim>\<open>re.sub(r'\D', '', s)\<close>: the digits of \<open>s\<close>, in order.\<close>

definition digits_only :: "string \<Rightarrow> string" where
  "digits_only s = filter is_digit s"

section \<open>Phone numbers\<close>

text \<open>
  \<^verbatim>\<open>parse_phone_number\<close> of alberta.py and bc.py (the two bodies are the same):
  \<^verbatim>\<open>
    if not phone or pd.isna(phone): return None
    digits_only = re.sub(r'\D', '', str(phone))
    if len(digits_only) == 10:
        return f"({digits_only[:3]}) {digits_only[3:6]}-{digits_only[6:]}"
    elif len(digits_only) == 11 and digits_only[0] == '1':
        return f"1-({digits_only[1:4]}) {digits_only[4:7]}-{digits_only[7:]}"
    return digits_only if digits_only else None
  \<close>
\<close>

definition parse_phone_number_alberta :: "raw \<Rightarrow> string option" where
  "parse_phone_number_alberta phone =
     (if \<not> truthy phone \<or> pd_isna phone then None
      else let d = digits_only (py_str phone) in
        if length d = 10
        then Some (''('' @ take 3 d @ '') '' @ take 3 (drop 3 d) @ ''-'' @ drop 6 d)
        else if length d = 11 \<and> hd d = CHR ''1''
        then Some (''1-('' @ take 3 (drop 1 d) @ '') '' @ take 3 (drop 4 d) @ ''-'' @ drop 7 d)
        else if d \<noteq> [] then Some d else None)"

definition parse_phone_number_bc :: "raw \<Rightarrow> string option" where
  "parse_phone_number_bc phone =
     (if \<not> truthy phone \<or> pd_isna phone then None
      else let d = digits_only (py_str phone) in
        if length d = 10
        then Some (''('' @ take 3 d @ '') '' @ take 3 (drop 3 d) @ ''-'' @ drop 6 d)
        else if length d = 11 \<and> hd d = CHR ''1''
        then Some (''1-('' @ take 3 (drop 1 d) @ '') '' @ take 3 (drop 4 d) @ ''-'' @ drop 7 d)
        else if d \<noteq> [] then Some d else None)"

text \<open>
  colorado.py returns early when no digit is left, and keeps an unformatted number only
  from seven digits on:
  \<^verbatim>\<open>
    if not digits_only: return None
    if len(digits_only) == 10: ...
    elif len(digits_only) == 11 and digits_only[0] == '1': ...
    elif len(digits_only) >= 7: return digits_only
    return None
  \<close>
\<close>

definition parse_phone_number_colorado :: "raw \<Rightarrow> string option" where
  "parse_phone_number_colorado phone =
     (if \<not> truthy phone \<or> pd_isna phone then None
      else let d = digits_only (py_str phone) in
        if d = [] then None
        else if length d = 10
        then Some (''('' @ take 3 d @ '') '' @ take 3 (drop 3 d) @ ''-'' @ drop 6 d)
        else if length d = 11 \<and> hd d = CHR ''1''
        then Some (''1-('' @ take 3 (drop 1 d) @ '') '' @ take 3 (drop 4 d) @ ''-'' @ drop 7 d)
        else if 7 \<le> length d then Some d
        else None)"

text \<open>
  \<^verbatim>\<open>clean_phone_number\<close> of federal.py is only called on the text of a table cell, so
  its argument is a string:
  \<^verbatim>\<open>
    if not phone or phone.lower() in ['n/a', 'none']: return None
  \<close>
  and the rest as in alberta.py.
\<close>

definition clean_phone_number :: "string \<Rightarrow> string option" where
  "clean_phone_number phone =
     (if phone = [] \<or> lower phone \<in> set [''n/a'', ''none''] then None
      else let d = digits_only phone in
        if length d = 10
        then Some (''('' @ take 3 d @ '') '' @ take 3 (drop 3 d) @ ''-'' @ drop 6 d)
        else if length d = 11 \<and> hd d = CHR ''1''
        then Some (''1-('' @ take 3 (drop 1 d) @ '') '' @ take 3 (drop 4 d) @ ''-'' @ drop 7 d)
        else if d \<noteq> [] then Some d else None)"

text \<open>
  The phone parser in the spec's words, on the digits that are left: ten digits are laid
  out as \<open>(XXX) XXX-XXXX\<close>, eleven digits with a leading 1 as \<open>1-(XXX) XXX-XXXX\<close>, any
  other digit string is returned as it is when it has at least \<open>m\<close> digits, and is absent
  otherwise.
\<close>

fun parse_phone_spec :: "nat \<Rightarrow> string \<Rightarrow> string option" where
  "parse_phone_spec m [a, b, c, d, e, f, g, h, i, j] =
     Some [CHR ''('', a, b, c, CHR '')'', CHR '' '', d, e, f, CHR ''-'', g, h, i, j]"
| "parse_phone_spec m [l, a, b, c, d, e, f, g, h, i, j] =
     (if l = CHR ''1''
      then Some [CHR ''1'', CHR ''-'', CHR ''('', a, b, c, CHR '')'', CHR '' '', d, e, f,
                 CHR ''-'', g, h, i, j]
      else if m \<le> 11 then Some [l, a, b, c, d, e, f, g, h, i, j] else None)"
| "parse_phone_spec m ds = (if m \<le> length ds then Some ds else None)"

section \<open>Free-text classification\<close>

text \<open>\<^verbatim>\<open>word in name\<close>: \<open>w\<close> occurs in \<open>s\<close> as a contiguous piece.\<close>

fun contains :: "string \<Rightarrow> string \<Rightarrow> bool" where
  "contains w [] = (w = [])"
| "contains w (c # cs) = (take (length w) (c # cs) = w \<or> contains w cs)"

text \<open>\<^verbatim>\<open>any(word in name for word in words)\<close>\<close>

definition any_in :: "string list \<Rightarrow> string \<Rightarrow> bool" where
  "any_in ws name = list_ex (\<lambda>w. contains w name) ws"

text \<open>
  The argument of a classifier is the result of \<^verbatim>\<open>clean_string\<close>: \<^verbatim>\<open>None\<close> or a
  string. \<^verbatim>\<open>not name\<close> holds for \<^verbatim>\<open>None\<close> and for the empty string.
\<close>

definition falsy :: "string option \<Rightarrow> bool" where
  "falsy x = (case x of None \<Rightarrow> True | Some s \<Rightarrow> s = [])"

text \<open>\<^verbatim>\<open>x or ''\<close>\<close>

definition or_empty :: "string option \<Rightarrow> string" where
  "or_empty x = (case x of None \<Rightarrow> [] | Some s \<Rightarrow> s)"

text \<open>alberta.py, \<^verbatim>\<open>determine_license_type(establishment_name)\<close>\<close>

definition determine_license_type_alberta :: "string option \<Rightarrow> string" where
  "determine_license_type_alberta establishment_name =
     (if falsy establishment_name then ''other''
      else let name = lower (or_empty establishment_name) in
        if any_in [''cultivation'', ''grow'', ''farm''] name then ''cultivation''
        else if any_in [''dispensary'', ''retail'', ''store''] name then ''retail''
        else if any_in [''processing'', ''extraction'', ''manufacturing''] name then ''processing''
        else if any_in [''distribution'', ''transport'', ''delivery''] name then ''distribution''
        else if any_in [''testing'', ''lab'', ''laboratory''] name then ''testing''
        else ''other'')"

text \<open>bc.py, \<^verbatim>\<open>determine_license_type(establishment_name)\<close>\<close>

definition determine_license_type_bc :: "string option \<Rightarrow> string" where
  "determine_license_type_bc establishment_name =
     (if falsy establishment_name then ''retail''
      else let name = lower (or_empty establishment_name) in
        if any_in [''cultivation'', ''grow'', ''farm'', ''grower''] name then ''cultivation''
        else if any_in [''processing'', ''extraction'', ''manufacturing'', ''processor''] name
        then ''processing''
        else if any_in [''distribution'', ''transport'', ''delivery'', ''distributor''] name
        then ''distribution''
        else if any_in [''testing'', ''lab'', ''laboratory''] name then ''testing''
        else ''retail'')"

text \<open>
  colorado.py, \<^verbatim>\<open>determine_license_type(facility_type, dba)\<close>: both arguments are
  replaced by \<^verbatim>\<open>""\<close> when falsy, and the text searched is
  \<^verbatim>\<open>f"{facility_type} {dba}".lower()\<close>.
\<close>

definition determine_license_type_colorado :: "string option \<Rightarrow> string option \<Rightarrow> string" where
  "determine_license_type_colorado facility_type dba =
     (let combined_text = lower (or_empty facility_type @ '' '' @ or_empty dba) in
        if contains ''cultivation'' combined_text \<or> contains ''cultivatio'' combined_text
        then ''cultivation''
        else if any_in [''retail'', ''dispensary'', ''store''] combined_text then ''retail''
        else if any_in [''processing'', ''extraction'', ''manufacturing'', ''infusion''] combined_text
        then ''processing''
        else if any_in [''distribution'', ''transport'', ''delivery''] combined_text
        then ''distribution''
        else if any_in [''testing'', ''lab'', ''laboratory''] combined_text then ''testing''
        else if contains ''medical marijuana'' combined_text then ''medical''
        else if contains ''optional premises'' combined_text then ''optional_premises''
        else ''other'')"

text \<open>michigan.py, \<^verbatim>\<open>determine_license_type(record_type)\<close>\<close>

definition determine_license_type_michigan :: "string option \<Rightarrow> string" where
  "determine_license_type_michigan record_type =
     (if falsy record_type then ''other''
      else let record_lower = lower (or_empty record_type) in
        if contains ''retailer'' record_lower \<or> contains ''retail'' record_lower then ''retail''
        else if contains ''processor'' record_lower \<or> contains ''processing'' record_lower
        then ''processing''
        else if contains ''grower'' record_lower \<or> contains ''cultivation'' record_lower
        then ''cultivation''
        else if contains ''transporter'' record_lower \<or> contains ''transport'' record_lower
        then ''distribution''
        else if contains ''testing'' record_lower \<or> contains ''lab'' record_lower then ''testing''
        else if contains ''entity'' record_lower then ''entity''
        else if contains ''secure transport'' record_lower then ''transport''
        else ''other'')"

text \<open>ontario.py, \<^verbatim>\<open>determine_license_type(premises_name)\<close>\<close>

definition determine_license_type_ontario :: "string option \<Rightarrow> string" where
  "determine_license_type_ontario premises_name =
     (if falsy premises_name then ''retail''
      else let name_lower = lower (or_empty premises_name) in
        if any_in [''cultivation'', ''cultivator'', ''grow'', ''farm''] name_lower
        then ''cultivation''
        else if any_in [''processing'', ''processor'', ''extraction'', ''manufacturing''] name_lower
        then ''processing''
        else if any_in [''distribution'', ''distributor'', ''transport'', ''delivery''] name_lower
        then ''distribution''
        else if any_in [''testing'', ''lab'', ''laboratory''] name_lower then ''testing''
        else ''retail'')"

text \<open>saskatchewan.py, \<^verbatim>\<open>determine_license_type_from_name(operating_name)\<close>\<close>

definition determine_license_type_from_name :: "string option \<Rightarrow> string" where
  "determine_license_type_from_name operating_name =
     (if falsy operating_name then ''retail''
      else let name = lower (or_empty operating_name) in
        if any_in [''dispensary'', ''cannabis'', ''weed'', ''shop'', ''store''] name then ''retail''
        else if contains ''smoke'' name then ''retail''
        else ''retail'')"

text \<open>jamaica_cla.py, \<^verbatim>\<open>determine_license_type(license_type_str)\<close>\<close>

definition determine_license_type_jamaica :: "string option \<Rightarrow> string" where
  "determine_license_type_jamaica license_type_str =
     (if falsy license_type_str then ''other''
      else let license_type = lower (or_empty license_type_str) in
        if contains ''retail'' license_type \<and> contains ''therapeutic'' license_type then ''retail''
        else if contains ''retail'' license_type \<and> contains ''herb house'' license_type
        then ''retail''
        else if contains ''processing'' license_type then ''processing''
        else if contains ''cultivator'' license_type \<or> contains ''cultivation'' license_type
        then ''cultivation''
        else if contains ''transport'' license_type then ''distribution''
        else ''retail'')"

text \<open>
  The classifier in the spec's words: an ordered list of (category, keywords) pairs is
  evaluated in order, the first category with a keyword in the text wins, and a default
  is returned when no keyword matches.
\<close>

fun classify_license_type :: "(string \<times> string list) list \<Rightarrow> string \<Rightarrow> string \<Rightarrow> string" where
  "classify_license_type [] dflt text = dflt"
| "classify_license_type ((category, keywords) # groups) dflt text =
     (if any_in keywords text then category else classify_license_type groups dflt text)"

text \<open>The keyword groups of each jurisdiction, in the order of its branches.\<close>

definition alberta_groups :: "(string \<times> string list) list" where
  "alberta_groups =
     [(''cultivation'', [''cultivation'', ''grow'', ''farm'']),
      (''retail'', [''dispensary'', ''retail'', ''store'']),
      (''processing'', [''processing'', ''extraction'', ''manufacturing'']),
      (''distribution'', [''distribution'', ''transport'', ''delivery'']),
      (''testing'', [''testing'', ''lab'', ''laboratory''])]"

definition bc_groups :: "(string \<times> string list) list" where
  "bc_groups =
     [(''cultivation'', [''cultivation'', ''grow'', ''farm'', ''grower'']),
      (''processing'', [''processing'', ''extraction'', ''manufacturing'', ''processor'']),
      (''distribution'', [''distribution'', ''transport'', ''delivery'', ''distributor'']),
      (''testing'', [''testing'', ''lab'', ''laboratory''])]"

definition colorado_groups :: "(string \<times> string list) list" where
  "colorado_groups =
     [(''cultivation'', [''cultivation'', ''cultivatio'']),
      (''retail'', [''retail'', ''dispensary'', ''store'']),
      (''processing'', [''processing'', ''extraction'', ''manufacturing'', ''infusion'']),
      (''distribution'', [''distribution'', ''transport'', ''delivery'']),
      (''testing'', [''testing'', ''lab'', ''laboratory'']),
      (''medical'', [''medical marijuana'']),
      (''optional_premises'', [''optional premises''])]"

definition michigan_groups :: "(string \<times> string list) list" where
  "michigan_groups =
     [(''retail'', [''retailer'', ''retail'']),
      (''processing'', [''processor'', ''processing'']),
      (''cultivation'', [''grower'', ''cultivation'']),
      (''distribution'', [''transporter'', ''transport'']),
      (''testing'', [''testing'', ''lab'']),
      (''entity'', [''entity'']),
      (''transport'', [''secure transport''])]"

definition ontario_groups :: "(string \<times> string list) list" where
  "ontario_groups =
     [(''cultivation'', [''cultivation'', ''cultivator'', ''grow'', ''farm'']),
      (''processing'', [''processing'', ''processor'', ''extraction'', ''manufacturing'']),
      (''distribution'', [''distribution'', ''distributor'', ''transport'', ''delivery'']),
      (''testing'', [''testing'', ''lab'', ''laboratory''])]"

definition saskatchewan_groups :: "(string \<times> string list) list" where
  "saskatchewan_groups =
     [(''retail'', [''dispensary'', ''cannabis'', ''weed'', ''shop'', ''store'']),
      (''retail'', [''smoke''])]"

text \<open>The position of a category in a list of groups, counted from 0.\<close>

fun group_index :: "string \<Rightarrow> (string \<times> string list) list \<Rightarrow> nat option" where
  "group_index c [] = None"
| "group_index c ((category, keywords) # groups) =
     (if c = category then Some 0 else map_option Suc (group_index c groups))"

section \<open>Postal codes\<close>

definition is_alpha :: "char \<Rightarrow> bool" where
  "is_alpha c = (c \<in> set ''ABCDEFGHIJKLMNOPQRSTUVWXYZabcdefghijklmnopqrstuvwxyz'')"

text \<open>
  The pattern \<^verbatim>\<open>[A-Z]\d[A-Z]\s?\d[A-Z]\d\<close> under \<^verbatim>\<open>re.IGNORECASE\<close>, matched at the start
  of a string; the result is the matched text. The optional \<^verbatim>\<open>\s\<close> is greedy: the
  match with a white-space character is tried first, then the match without.
\<close>

fun match_tail :: "string \<Rightarrow> string option" where
  "match_tail (d # e # f # rest) =
     (if is_digit d \<and> is_alpha e \<and> is_digit f then Some [d, e, f] else None)"
| "match_tail rest = None"

fun match_postal :: "string \<Rightarrow> string option" where
  "match_postal (a # b # c # rest) =
     (if is_alpha a \<and> is_digit b \<and> is_alpha c
      then (case (case rest of
                    w # rest' \<Rightarrow>
                      if is_space w then map_option (\<lambda>t. w # t) (match_tail rest') else None
                  | [] \<Rightarrow> None) of
              Some t \<Rightarrow> Some ([a, b, c] @ t)
            | None \<Rightarrow> map_option (\<lambda>t. [a, b, c] @ t) (match_tail rest))
      else None)"
| "match_postal rest = None"

text \<open>\<^verbatim>\<open>re.search\<close>: the match at the leftmost position that has one.\<close>

fun search_postal :: "string \<Rightarrow> string option" where
  "search_postal [] = None"
| "search_postal (c # cs) =
     (case match_postal (c # cs) of Some m \<Rightarrow> Some m | None \<Rightarrow> search_postal cs)"

text \<open>
  alberta.py:
  \<^verbatim>\<open>
    def extract_postal_code(self, address, site_postal=None):
        if site_postal and str(site_postal).strip():
            return str(site_postal).strip()
        if address:
            postal_match = re.search(r'[A-Z]\d[A-Z]\s?\d[A-Z]\d', str(address), re.IGNORECASE)
            if postal_match:
                return postal_match.group(0).upper()
        return None
  \<close>
\<close>

definition extract_postal_code_alberta :: "raw \<Rightarrow> raw \<Rightarrow> string option" where
  "extract_postal_code_alberta address site_postal =
     (if truthy site_postal \<and> strip (py_str site_postal) \<noteq> []
      then Some (strip (py_str site_postal))
      else if truthy address
      then (case search_postal (py_str address) of
              Some postal_match \<Rightarrow> Some (upper postal_match)
            | None \<Rightarrow> None)
      else None)"

text \<open>
  bc.py takes the explicit field only:
  \<^verbatim>\<open>
    def extract_postal_code(self, postal_value):
        if not postal_value or pd.isna(postal_value): return None
        postal = str(postal_value).strip().upper()
        if len(postal) == 6:
            return f"{postal[:3]} {postal[3:]}"
        elif len(postal) == 7 and postal[3] == ' ':
            return postal
        return postal if postal else None
  \<close>
\<close>

definition extract_postal_code_bc :: "raw \<Rightarrow> string option" where
  "extract_postal_code_bc postal_value =
     (if \<not> truthy postal_value \<or> pd_isna postal_value then None
      else let postal = upper (strip (py_str postal_value)) in
        if length postal = 6 then Some (take 3 postal @ '' '' @ drop 3 postal)
        else if length postal = 7 \<and> postal ! 3 = CHR '' '' then Some postal
        else if postal \<noteq> [] then Some postal else None)"

text \<open>
  The shape of a match of the pattern: letter, digit, letter, at most one white-space
  character, digit, letter, digit.
\<close>

fun postal_shape :: "string \<Rightarrow> bool" where
  "postal_shape [a, b, c, d, e, f] =
     (is_alpha a \<and> is_digit b \<and> is_alpha c \<and> is_digit d \<and> is_alpha e \<and> is_digit f)"
| "postal_shape [a, b, c, w, d, e, f] =
     (is_alpha a \<and> is_digit b \<and> is_alpha c \<and> is_space w \<and> is_digit d \<and> is_alpha e \<and> is_digit f)"
| "postal_shape m = False"

text \<open>
  The canonical spacing of the spec: the first three characters, one space, the last
  three characters.
\<close>

definition canonical_spacing :: "string \<Rightarrow> string" where
  "canonical_spacing m = take 3 m @ '' '' @ drop (length m - 3) m"

section \<open>Documents, rows and the libraries\<close>

text \<open>
  A document is the Python dict the transform builds: keys in the order of the literal,
  each with a value. \<open>'t\<close> is the type of the timestamps of pandas and \<open>'f\<close> the type
  of Python's floats; both come from the libraries and are left open.
\<close>

datatype ('t, 'f) pyval =
    VNone
  | VBool bool
  | VStr string
  | VList "('t, 'f) pyval list"
  | VDict "(string \<times> ('t, 'f) pyval) list"
  | VFloat 'f
  | VDatetime 't
  | VOther raw

type_synonym ('t, 'f) document = "(string \<times> ('t, 'f) pyval) list"

definition opt_str :: "string option \<Rightarrow> ('t, 'f) pyval" where
  "opt_str x = (case x of None \<Rightarrow> VNone | Some s \<Rightarrow> VStr s)"

text \<open>A raw value stored in a document as it is.\<close>

fun of_raw :: "raw \<Rightarrow> ('t, 'f) pyval" where
  "of_raw RNone = VNone"
| "of_raw (RStr s) = VStr s"
| "of_raw v = VOther v"

fun val_truthy :: "('t, 'f) pyval \<Rightarrow> bool" where
  "val_truthy VNone = False"
| "val_truthy (VBool b) = b"
| "val_truthy (VStr s) = (s \<noteq> [])"
| "val_truthy (VList xs) = (xs \<noteq> [])"
| "val_truthy (VDict kvs) = (kvs \<noteq> [])"
| "val_truthy (VFloat x) = True"
| "val_truthy (VDatetime t) = True"
| "val_truthy (VOther v) = truthy v"

text \<open>
  The truth value of \<^verbatim>\<open>document[key]\<close>, as the completeness checks of the drivers read
  it. (A missing key would raise KeyError inside the driver's \<^verbatim>\<open>try\<close>, which excludes
  the record as a false value does; the documents built here have the keys.)
\<close>

definition doc_truthy :: "('t, 'f) document \<Rightarrow> string \<Rightarrow> bool" where
  "doc_truthy document key = (case map_of document key of Some v \<Rightarrow> val_truthy v | None \<Rightarrow> False)"

text \<open>
  A row is a mapping from column names to cells; \<^verbatim>\<open>row.get(key)\<close> is \<^verbatim>\<open>None\<close> for a
  column the row does not have.
\<close>

type_synonym row = "string \<Rightarrow> raw option"

definition row_get :: "row \<Rightarrow> string \<Rightarrow> raw" where
  "row_get r key = (case r key of None \<Rightarrow> RNone | Some v \<Rightarrow> v)"

text \<open>\<^verbatim>\<open>a or b\<close>\<close>

definition py_or :: "raw \<Rightarrow> raw \<Rightarrow> raw" where
  "py_or a b = (if truthy a then a else b)"

text \<open>\<^verbatim>\<open>value == ''\<close>\<close>

definition eq_empty :: "raw \<Rightarrow> bool" where
  "eq_empty v = (v = RStr [])"

text \<open>The truth value of a cleaned string: \<^verbatim>\<open>None\<close> and \<^verbatim>\<open>''\<close> are false.\<close>

definition str_truthy :: "string option \<Rightarrow> bool" where
  "str_truthy x = (case x of None \<Rightarrow> False | Some s \<Rightarrow> s \<noteq> [])"

text \<open>\<^verbatim>\<open>sep.join(parts)\<close>\<close>

fun join :: "string \<Rightarrow> string list \<Rightarrow> string" where
  "join sep [] = []"
| "join sep [p] = p"
| "join sep (p # q # ps) = p @ sep @ join sep (q # ps)"

text \<open>\<^verbatim>\<open>[part for part in parts if part]\<close>\<close>

fun keep_truthy :: "string option list \<Rightarrow> string list" where
  "keep_truthy [] = []"
| "keep_truthy (None # ps) = keep_truthy ps"
| "keep_truthy (Some s # ps) = (if s \<noteq> [] then s # keep_truthy ps else keep_truthy ps)"

text \<open>
  What \<^verbatim>\<open>pd.to_datetime\<close> does with a scalar: it raises, or returns the missing
  timestamp \<^verbatim>\<open>NaT\<close> (for which \<^verbatim>\<open>pd.isna\<close> holds and whose \<^verbatim>\<open>isoformat()\<close> is the text
  \<^verbatim>\<open>NaT\<close>), or returns a timestamp.
\<close>

datatype 't dtres = DtRaise | DtNaT | DtTS 't

text \<open>
  The library functions the scrapers call and this development does not define:
  \<^item> \<open>to_datetime\<close>: \<^verbatim>\<open>pd.to_datetime(x)\<close>;
  \<^item> \<open>to_datetime_coerce\<close>: \<^verbatim>\<open>pd.to_datetime(x, errors='coerce')\<close>;
  \<^item> \<open>isoformat\<close>: \<^verbatim>\<open>t.isoformat()\<close> of a timestamp;
  \<^item> \<open>days_between\<close>: \<^verbatim>\<open>(a - b).days\<close> of two timestamps (the subtraction raises when
    one of them carries a time zone and the other does not);
  \<^item> \<open>py_float\<close>: \<^verbatim>\<open>float(x)\<close>, which returns a float or raises.
\<close>

record ('t, 'f) pylib =
  to_datetime :: "raw \<Rightarrow> 't dtres"
  to_datetime_coerce :: "raw \<Rightarrow> 't dtres"
  isoformat :: "'t \<Rightarrow> string"
  days_between :: "'t \<Rightarrow> 't \<Rightarrow> py_error + int"
  py_float :: "raw \<Rightarrow> py_error + 'f"

section \<open>Alberta\<close>

text \<open>
  \<^verbatim>\<open>
    def clean_string(self, value):
        if pd.isna(value) or value == '': return None
        return str(value).strip()
  \<close>
\<close>

definition clean_string_alberta :: "raw \<Rightarrow> string option" where
  "clean_string_alberta v =
     (if pd_isna v \<or> eq_empty v then None else Some (strip (py_str v)))"

text \<open>
  \<^verbatim>\<open>
    def parse_date(self, date_value):
        if pd.isna(date_value): return None
        try:
            parsed_date = pd.to_datetime(date_value)    # in both branches of the if
            return parsed_date.isoformat()
        except:
            return None
  \<close>
\<close>

definition parse_date_alberta :: "('t, 'f) pylib \<Rightarrow> raw \<Rightarrow> string option" where
  "parse_date_alberta lib date_value =
     (if pd_isna date_value then None
      else case to_datetime lib date_value of
             DtRaise \<Rightarrow> None
           | DtNaT \<Rightarrow> Some ''NaT''
           | DtTS parsed_date \<Rightarrow> Some (isoformat lib parsed_date))"

definition is_smoke_shop_alberta :: "string option \<Rightarrow> bool" where
  "is_smoke_shop_alberta establishment_name =
     (if falsy establishment_name then False
      else any_in [''smoke'', ''tobacco'', ''vape'', ''cigar''] (lower (or_empty establishment_name)))"

text \<open>
  \<^verbatim>\<open>
    def create_address_string(self, row):
        address_parts = []
        if self.clean_string(row.get('Site Address Line 1')):
            address_parts.append(self.clean_string(row.get('Site Address Line 1')))
        city = self.clean_string(row.get('Site City Name'))
        province = self.clean_string(row.get('Site'))
        postal = self.clean_string(row.get('Site Postal'))
        location_parts = [part for part in [city, province, postal] if part]
        if location_parts:
            address_parts.append(', '.join(location_parts))
        return ', '.join(address_parts)
  \<close>
\<close>

definition create_address_string :: "row \<Rightarrow> string" where
  "create_address_string r =
     (let address_parts = keep_truthy [clean_string_alberta (row_get r ''Site Address Line 1'')];
          city = clean_string_alberta (row_get r ''Site City Name'');
          province = clean_string_alberta (row_get r ''Site'');
          postal = clean_string_alberta (row_get r ''Site Postal'');
          location_parts = keep_truthy [city, province, postal];
          address_parts = (if location_parts \<noteq> []
                           then address_parts @ [join '', '' location_parts]
                           else address_parts)
      in join '', '' address_parts)"

definition transform_row_to_schema_alberta ::
    "('t, 'f) pylib \<Rightarrow> row \<Rightarrow> py_error + ('t, 'f) document" where
  "transform_row_to_schema_alberta lib r =
     (let business_name = clean_string_alberta (row_get r ''Establishment Name'');
          license_number = clean_string_alberta (row_get r ''Authorization Number'');
          city = clean_string_alberta (row_get r ''Site City Name'');
          province = clean_string_alberta (row_get r ''Site'');
          business_address = create_address_string r;
          phone = parse_phone_number_alberta (row_get r ''Telephone Number'');
          issue_date = parse_date_alberta lib (row_get r ''Initial Effective'');
          license_type = determine_license_type_alberta business_name;
          smoke_shop = is_smoke_shop_alberta business_name;
          manager_name = clean_string_alberta (row_get r ''Manager Name'')
      in Inr
        [(''business_name'', opt_str business_name),
         (''license_number'', opt_str license_number),
         (''stateName'', VStr ''Alberta''),
         (''city'', opt_str city),
         (''business_address'', VStr business_address),
         (''contact_information'', VDict
            [(''phone'', opt_str phone), (''email'', VNone), (''website'', VNone)]),
         (''owner'', VDict
            [(''name'', opt_str manager_name),
             (''email'', VNone),
             (''role'', if str_truthy manager_name then VStr ''Manager'' else VNone),
             (''phone'', opt_str phone),
             (''govt_issued_id'', VNone)]),
         (''operator_name'', opt_str manager_name),
         (''issue_date'', opt_str issue_date),
         (''expiration_date'', VNone),
         (''license_type'', VStr license_type),
         (''license_status'', VStr ''Active''),
         (''jurisdiction'', VStr ''Alberta''),
         (''regulatory_body'', VStr ''Health Canada''),
         (''entity_type'', VList [VStr license_type]),
         (''filing_documents_url'', VNone),
         (''license_conditions'', VList []),
         (''claimed'', VBool False),
         (''claimedBy'', VNone),
         (''claimedAt'', VNone),
         (''canojaVerified'', VBool True),
         (''adminVerificationRequired'', VBool False),
         (''featured'', VBool False),
         (''dba'', opt_str business_name),
         (''state_license_document'', VNone),
         (''utility_bill'', VNone),
         (''gps_validation'', VBool False),
         (''location'', VDict [(''type'', VStr ''Point''), (''coordinates'', VList [])]),
         (''smoke_shop'', VBool smoke_shop)])"

text \<open>
  The driver. \<open>load\<close> is what \<^verbatim>\<open>load_excel_data\<close> leaves in \<^verbatim>\<open>self.df\<close>: the rows, or
  nothing when the file cannot be read.
  \<^verbatim>\<open>
    def scrape_all_data(self):
        if not self.load_excel_data(): return []
        documents = []
        for index, row in self.df.iterrows():
            try:
                document = self.transform_row_to_schema(row)
                documents.append(document)
            except Exception as e:
                print(f"Error processing row {index}: {e}")
                continue
        return documents
  \<close>
\<close>

fun scrape_rows_alberta :: "('t, 'f) pylib \<Rightarrow> row list \<Rightarrow> ('t, 'f) document list" where
  "scrape_rows_alberta lib [] = []"
| "scrape_rows_alberta lib (r # rows) =
     (case transform_row_to_schema_alberta lib r of
        Inr document \<Rightarrow> document # scrape_rows_alberta lib rows
      | Inl e \<Rightarrow> scrape_rows_alberta lib rows)"

definition scrape_all_data_alberta ::
    "('t, 'f) pylib \<Rightarrow> row list option \<Rightarrow> ('t, 'f) document list" where
  "scrape_all_data_alberta lib load =
     (case load of None \<Rightarrow> [] | Some rows \<Rightarrow> scrape_rows_alberta lib rows)"

section \<open>Colorado\<close>

text \<open>
  \<^verbatim>\<open>
    def clean_string(self, value):
        if pd.isna(value) or value == '' or str(value).lower() in ['none', 'null', 'n/a']:
            return None
        return str(value).strip()
  \<close>
\<close>

definition clean_string_colorado :: "raw \<Rightarrow> string option" where
  "clean_string_colorado v =
     (if pd_isna v \<or> eq_empty v \<or> lower (py_str v) \<in> set [''none'', ''null'', ''n/a'']
      then None else Some (strip (py_str v)))"

text \<open>\<^verbatim>\<open>isinstance(value, str)\<close>\<close>

fun is_str :: "raw \<Rightarrow> bool" where
  "is_str (RStr s) = True"
| "is_str v = False"

text \<open>A cleaned string handed to a function that takes any value.\<close>

definition raw_of :: "string option \<Rightarrow> raw" where
  "raw_of x = (case x of None \<Rightarrow> RNone | Some s \<Rightarrow> RStr s)"

text \<open>
  \<^verbatim>\<open>
    def parse_date(self, date_value):
        if pd.isna(date_value) or not date_value: return None
        try:
            if isinstance(date_value, str):
                parsed_date = pd.to_datetime(date_value, errors='coerce')
            else:
                parsed_date = pd.to_datetime(date_value)
            if pd.isna(parsed_date): return None
            return parsed_date.isoformat()
        except Exception as e:
            return None
  \<close>
\<close>

definition parse_date_colorado :: "('t, 'f) pylib \<Rightarrow> raw \<Rightarrow> string option" where
  "parse_date_colorado lib date_value =
     (if pd_isna date_value \<or> \<not> truthy date_value then None
      else case (if is_str date_value then to_datetime_coerce lib date_value
                 else to_datetime lib date_value) of
             DtRaise \<Rightarrow> None
           | DtNaT \<Rightarrow> None
           | DtTS parsed_date \<Rightarrow> Some (isoformat lib parsed_date))"

definition is_smoke_shop_colorado :: "string option \<Rightarrow> string option \<Rightarrow> bool" where
  "is_smoke_shop_colorado business_name dba =
     any_in [''smoke'', ''tobacco'', ''vape'', ''cigar'', ''head shop'']
       (lower (or_empty business_name @ '' '' @ or_empty dba))"

text \<open>
  \<^verbatim>\<open>
    def create_full_address(self, row):
        address_parts = []
        street = self.clean_string(row.get('Street'))
        if street: address_parts.append(street)
        city = self.clean_string(row.get('City'))
        zip_code = self.clean_string(row.get('ZIP Code'))
        location_parts = []
        if city: location_parts.append(city)
        if zip_code: location_parts.append(zip_code)
        if location_parts: address_parts.append(', '.join(location_parts))
        return ', '.join(address_parts) if address_parts else None
  \<close>
\<close>

definition create_full_address_colorado :: "row \<Rightarrow> string option" where
  "create_full_address_colorado r =
     (let street = clean_string_colorado (row_get r ''Street'');
          address_parts = keep_truthy [street];
          city = clean_string_colorado (row_get r ''City'');
          zip_code = clean_string_colorado (row_get r ''ZIP Code'');
          location_parts = keep_truthy [city] @ keep_truthy [zip_code];
          address_parts = (if location_parts \<noteq> []
                           then address_parts @ [join '', '' location_parts]
                           else address_parts)
      in if address_parts \<noteq> [] then Some (join '', '' address_parts) else None)"

text \<open>
  The status reads the clock; \<open>now\<close> is the value of \<^verbatim>\<open>pd.Timestamp.now()\<close> at the call.
  \<^verbatim>\<open>
    def get_license_status(self, date_updated=None):
        if date_updated:
            try:
                update_date = pd.to_datetime(date_updated)
                current_date = pd.Timestamp.now()
                days_since_update = (current_date - update_date).days
                if days_since_update <= 90: return 'Active'
                else: return 'Unknown'
            except:
                pass
        return 'Active'
  \<close>
  For the missing timestamp \<^verbatim>\<open>NaT\<close> the difference is \<^verbatim>\<open>NaT\<close>, its \<^verbatim>\<open>days\<close> is NaN, and
  the comparison of NaN with 90 is false.
\<close>

definition get_license_status_colorado :: "('t, 'f) pylib \<Rightarrow> 't \<Rightarrow> string option \<Rightarrow> string" where
  "get_license_status_colorado lib now date_updated =
     (if str_truthy date_updated
      then (case to_datetime lib (raw_of date_updated) of
              DtRaise \<Rightarrow> ''Active''
            | DtNaT \<Rightarrow> ''Unknown''
            | DtTS update_date \<Rightarrow>
                (case days_between lib now update_date of
                   Inl e \<Rightarrow> ''Active''
                 | Inr days_since_update \<Rightarrow>
                     if days_since_update \<le> 90 then ''Active'' else ''Unknown''))
      else ''Active'')"

text \<open>\<^verbatim>\<open>a or b\<close> on cleaned strings\<close>

definition opt_or :: "string option \<Rightarrow> string option \<Rightarrow> string option" where
  "opt_or a b = (if str_truthy a then a else b)"

definition transform_row_to_schema_colorado ::
    "('t, 'f) pylib \<Rightarrow> 't \<Rightarrow> row \<Rightarrow> py_error + ('t, 'f) document" where
  "transform_row_to_schema_colorado lib now r =
     (let license_number = clean_string_colorado (row_get r ''License Number'');
          facility_name = clean_string_colorado (row_get r ''Facility Name'');
          dba = clean_string_colorado (row_get r ''DBA'');
          facility_type = clean_string_colorado (row_get r ''Facility Type'');
          city = clean_string_colorado (row_get r ''City'');
          date_updated = clean_string_colorado (row_get r ''Date Updated'');
          business_name = opt_or facility_name dba;
          business_address = create_full_address_colorado r;
          state_name = ''Colorado'';
          license_type = determine_license_type_colorado facility_type dba;
          license_status = get_license_status_colorado lib now date_updated;
          smoke_shop = is_smoke_shop_colorado business_name dba;
          issue_date = parse_date_colorado lib (raw_of date_updated)
      in Inr
        [(''googlePlaceId'', VNone),
         (''business_name'', opt_str business_name),
         (''license_number'', opt_str license_number),
         (''stateName'', VStr state_name),
         (''city'', opt_str city),
         (''business_address'', opt_str business_address),
         (''contact_information'', VDict
            [(''phone'', VNone), (''email'', VNone), (''website'', VNone)]),
         (''owner'', VDict
            [(''name'', VNone), (''email'', VNone), (''role'', VNone), (''phone'', VNone),
             (''govt_issued_id'', VNone)]),
         (''operator_name'', VNone),
         (''issue_date'', opt_str issue_date),
         (''expiration_date'', VNone),
         (''license_type'', VStr license_type),
         (''license_status'', VStr license_status),
         (''jurisdiction'', VStr state_name),
         (''regulatory_body'', VStr ''Colorado Department of Revenue''),
         (''entity_type'', VList [VStr license_type]),
         (''filing_documents_url'', VNone),
         (''license_conditions'', VList []),
         (''claimed'', VBool False),
         (''claimedBy'', VNone),
         (''claimedAt'', VNone),
         (''canojaVerified'', VBool True),
         (''adminVerificationRequired'', VBool False),
         (''featured'', VBool False),
         (''dba'', opt_str dba),
         (''state_license_document'', VNone),
         (''utility_bill'', VNone),
         (''gps_validation'', VBool False),
         (''location'', VDict [(''type'', VStr ''Point''), (''coordinates'', VList [])]),
         (''smoke_shop'', VBool smoke_shop)])"

text \<open>
  \<^verbatim>\<open>
        for index, row in self.df.iterrows():
            try:
                document = self.transform_row_to_schema(row)
                if document['business_name'] and document['license_number']:
                    documents.append(document)
                    processed_count += 1
                else:
                    print(f"Skipping row {index + 1}: Missing essential data ...")
            except Exception as e:
                error_count += 1
                continue
  \<close>
  The whole batch is transformed at one reading \<open>now\<close> of the clock (a batch takes far
  less than a day, and only the day count is compared).
\<close>

fun scrape_rows_colorado :: "('t, 'f) pylib \<Rightarrow> 't \<Rightarrow> row list \<Rightarrow> ('t, 'f) document list" where
  "scrape_rows_colorado lib now [] = []"
| "scrape_rows_colorado lib now (r # rows) =
     (case transform_row_to_schema_colorado lib now r of
        Inr document \<Rightarrow>
          if doc_truthy document ''business_name'' \<and> doc_truthy document ''license_number''
          then document # scrape_rows_colorado lib now rows
          else scrape_rows_colorado lib now rows
      | Inl e \<Rightarrow> scrape_rows_colorado lib now rows)"


section \<open>Michigan\<close>

definition clean_string_michigan :: "raw \<Rightarrow> string option" where
  "clean_string_michigan v =
     (if pd_isna v \<or> eq_empty v \<or> lower (py_str v) \<in> set [''none'', ''null'', ''n/a'', ''nan'']
      then None else Some (strip (py_str v)))"

text \<open>
  Michigan's date parser returns the native datetime of the timestamp, not its text:
  \<^verbatim>\<open>
    def parse_date(self, date_value):
        """Parse date values and return datetime object for MongoDB"""
        if pd.isna(date_value) or not date_value: return None
        try:
            if isinstance(date_value, str):
                parsed_date = pd.to_datetime(date_value, errors='coerce')
            else:
                parsed_date = pd.to_datetime(date_value)
            if pd.isna(parsed_date): return None
            # Return datetime object instead of ISO string for MongoDB
            return parsed_date.to_pydatetime()
        except Exception as e:
            return None
  \<close>
\<close>

definition parse_date_michigan :: "('t, 'f) pylib \<Rightarrow> raw \<Rightarrow> ('t, 'f) pyval" where
  "parse_date_michigan lib date_value =
     (if pd_isna date_value \<or> \<not> truthy date_value then VNone
      else case (if is_str date_value then to_datetime_coerce lib date_value
                 else to_datetime lib date_value) of
             DtRaise \<Rightarrow> VNone
           | DtNaT \<Rightarrow> VNone
           | DtTS parsed_date \<Rightarrow> VDatetime parsed_date)"

definition parse_license_status :: "string option \<Rightarrow> string" where
  "parse_license_status status =
     (if falsy status then ''Unknown''
      else let status_lower = lower (or_empty status) in
        if contains ''active'' status_lower
        then (if contains ''prequalified'' status_lower then ''Prequalified'' else ''Active'')
        else if contains ''inactive'' status_lower then ''Inactive''
        else if contains ''expired'' status_lower then ''Expired''
        else if contains ''pending'' status_lower then ''Pending''
        else if contains ''suspended'' status_lower then ''Suspended''
        else ''Unknown'')"

text \<open>\<^verbatim>\<open>s.split(',')\<close>: the pieces between the separators; never an empty list.\<close>

fun split_on :: "char \<Rightarrow> string \<Rightarrow> string list" where
  "split_on sep [] = [[]]"
| "split_on sep (c # cs) =
     (if c = sep then [] # split_on sep cs
      else case split_on sep cs of
             p # ps \<Rightarrow> (c # p) # ps
           | [] \<Rightarrow> [[c]])"

text \<open>\<^verbatim>\<open>s.split()\<close>: the maximal pieces without white space.\<close>

function split_ws :: "string \<Rightarrow> string list" where
  "split_ws s =
     (let t = dropWhile is_space s in
        if t = [] then []
        else takeWhile (\<lambda>c. \<not> is_space c) t # split_ws (dropWhile (\<lambda>c. \<not> is_space c) t))"
  by pat_completeness auto
termination
proof (relation "measure length")
  show "wf (measure length)" by simp
next
  fix s t :: string
  assume t: "t = dropWhile is_space s" and ne: "t \<noteq> []"
  from ne obtain c cs where tc: "t = c # cs" by (cases t) auto
  from t tc have "\<not> is_space c" by (metis hd_dropWhile list.sel(1) ne)
  with tc have "length (dropWhile (\<lambda>c. \<not> is_space c) t) < length t"
    by (simp add: le_imp_less_Suc length_dropWhile_le)
  also have "length t \<le> length s" unfolding t by (rule length_dropWhile_le)
  finally show "(dropWhile (\<lambda>c. \<not> is_space c) t, s) \<in> measure length" by simp
qed

declare split_ws.simps [simp del]

text \<open>
  The rest of the pattern \<^verbatim>\<open>^(.+?)\s+MI\s+\d{5}\<close> after the group: white space, \<^verbatim>\<open>MI\<close>,
  white space, five digits. Each \<^verbatim>\<open>\s+\<close> has to take the whole run of white space,
  since the character after it is none.
\<close>

definition match_mi_zip :: "string \<Rightarrow> bool" where
  "match_mi_zip s =
     (let s1 = dropWhile is_space s in
        s1 \<noteq> s \<and> take 2 s1 = ''MI'' \<and>
        (let s2 = drop 2 s1; s3 = dropWhile is_space s2 in
           s3 \<noteq> s2 \<and> 5 \<le> length (takeWhile is_digit s3)))"

text \<open>
  The lazy group \<^verbatim>\<open>(.+?)\<close>: the shortest non-empty beginning, free of line feeds, after
  which the rest of the pattern matches. \<open>seen\<close> is the beginning read so far.
\<close>

fun match_city :: "string \<Rightarrow> string \<Rightarrow> string option" where
  "match_city seen [] = None"
| "match_city seen (c # cs) =
     (if c = CHR 0x0A then None
      else if match_mi_zip cs then Some (seen @ [c])
      else match_city (seen @ [c]) cs)"

text \<open>
  \<^verbatim>\<open>
    def parse_address(self, address_str):
        if not address_str: return {'full_address': None, 'city': None}
        parts = address_str.split(',')
        city = None
        if len(parts) >= 2:
            city_state_zip = parts[-1].strip()
            city_match = re.search(r'^(.+?)\s+MI\s+\d{5}', city_state_zip)
            if city_match:
                city = city_match.group(1).strip()
            else:
                city_parts = city_state_zip.split()
                if len(city_parts) >= 2:
                    city = ' '.join(city_parts[:-2]) if len(city_parts) > 2 else city_parts[0]
        return {'full_address': address_str, 'city': city}
  \<close>
  The result is the pair (full address, city).
\<close>

definition parse_address :: "string option \<Rightarrow> string option \<times> string option" where
  "parse_address address_str =
     (if falsy address_str then (None, None)
      else let parts = split_on CHR '','' (or_empty address_str);
               city =
                 (if 2 \<le> length parts
                  then let city_state_zip = strip (last parts) in
                    case match_city [] city_state_zip of
                      Some g \<Rightarrow> Some (strip g)
                    | None \<Rightarrow>
                        let city_parts = split_ws city_state_zip in
                          if 2 \<le> length city_parts
                          then (if 2 < length city_parts
                                then Some (join '' '' (take (length city_parts - 2) city_parts))
                                else Some (hd city_parts))
                          else None
                  else None)
           in (address_str, city))"

definition is_smoke_shop_michigan :: "string option \<Rightarrow> bool" where
  "is_smoke_shop_michigan business_name =
     (if falsy business_name then False
      else any_in [''smoke'', ''tobacco'', ''vape'', ''cigar'', ''head shop'']
             (lower (or_empty business_name)))"

definition transform_row_to_schema_michigan ::
    "('t, 'f) pylib \<Rightarrow> row \<Rightarrow> py_error + ('t, 'f) document" where
  "transform_row_to_schema_michigan lib r =
     (let record_number =
            clean_string_michigan (py_or (row_get r ''Record Number'') (row_get r ''RecordNumber''));
          record_type =
            clean_string_michigan (py_or (row_get r ''Record Type'') (row_get r ''RecordType''));
          license_name =
            clean_string_michigan (py_or (row_get r ''License Name'') (row_get r ''LicenseName''));
          address = clean_string_michigan (row_get r ''Address'');
          expiration_date =
            clean_string_michigan
              (py_or (row_get r ''Expiration Date'') (row_get r ''ExpirationDate''));
          status = clean_string_michigan (row_get r ''Status'');
          notes = clean_string_michigan (row_get r ''Notes'');
          disciplinary_action =
            clean_string_michigan
              (py_or (row_get r ''Disciplinary Action'') (row_get r ''DisciplinaryAction''));
          address_info = parse_address address;
          license_type = determine_license_type_michigan record_type;
          license_status = parse_license_status status;
          smoke_shop = is_smoke_shop_michigan license_name;
          expiry_date = parse_date_michigan lib (raw_of expiration_date)
      in Inr
        [(''googlePlaceId'', VNone),
         (''business_name'', opt_str license_name),
         (''license_number'', opt_str record_number),
         (''stateName'', VStr ''Michigan''),
         (''city'', opt_str (snd address_info)),
         (''business_address'', opt_str (fst address_info)),
         (''contact_information'', VDict
            [(''phone'', VNone), (''email'', VNone), (''website'', VNone)]),
         (''owner'', VDict
            [(''name'', VNone), (''email'', VNone), (''role'', VNone), (''phone'', VNone),
             (''govt_issued_id'', VNone)]),
         (''operator_name'', VNone),
         (''issue_date'', VNone),
         (''expiration_date'', expiry_date),
         (''license_type'', VStr license_type),
         (''license_status'', VStr license_status),
         (''jurisdiction'', VStr ''Michigan''),
         (''regulatory_body'', VStr ''Cannabis Regulatory Agency (CRA)''),
         (''entity_type'', VList [VStr license_type]),
         (''filing_documents_url'', VNone),
         (''license_conditions'', VList []),
         (''claimed'', VBool False),
         (''claimedBy'', VNone),
         (''claimedAt'', VNone),
         (''canojaVerified'', VBool False),
         (''adminVerificationRequired'', VBool False),
         (''featured'', VBool False),
         (''dba'', VNone),
         (''state_license_document'', VNone),
         (''utility_bill'', VNone),
         (''gps_validation'', VBool False),
         (''location'', VDict [(''type'', VStr ''Point''), (''coordinates'', VList [])]),
         (''smoke_shop'', VBool smoke_shop),
         (''_michigan_record_number'', opt_str record_number),
         (''_michigan_record_type'', opt_str record_type),
         (''_michigan_notes'', opt_str notes),
         (''_michigan_disciplinary_action'', opt_str disciplinary_action),
         (''_michigan_raw_status'', opt_str status)])"

text \<open>\<^verbatim>\<open>process_all_data\<close>: the loop and the check are those of colorado.py.\<close>

fun process_rows_michigan :: "('t, 'f) pylib \<Rightarrow> row list \<Rightarrow> ('t, 'f) document list" where
  "process_rows_michigan lib [] = []"
| "process_rows_michigan lib (r # rows) =
     (case transform_row_to_schema_michigan lib r of
        Inr document \<Rightarrow>
          if doc_truthy document ''business_name'' \<and> doc_truthy document ''license_number''
          then document # process_rows_michigan lib rows
          else process_rows_michigan lib rows
      | Inl e \<Rightarrow> process_rows_michigan lib rows)"


section \<open>British Columbia\<close>

definition clean_string_bc :: "raw \<Rightarrow> string option" where
  "clean_string_bc v =
     (if pd_isna v \<or> eq_empty v \<or> strip (py_str v) = [] then None
      else Some (strip (py_str v)))"

definition is_smoke_shop_bc :: "string option \<Rightarrow> bool" where
  "is_smoke_shop_bc establishment_name =
     (if falsy establishment_name then False
      else let name = lower (or_empty establishment_name) in
        any_in [''smoke'', ''tobacco'', ''cigar''] name \<and> \<not> contains ''cannabis'' name)"

text \<open>
  \<^verbatim>\<open>
    def create_full_address(self, address, city, postal):
        address_parts = []
        if address: address_parts.append(str(address).strip())
        location_parts = []
        if city: location_parts.append(str(city).strip())
        location_parts.append('BC')
        if postal: location_parts.append(str(postal).strip())
        if location_parts: address_parts.append(', '.join(location_parts))
        return ', '.join(address_parts) if address_parts else ''
  \<close>
\<close>

definition create_full_address_bc ::
    "string option \<Rightarrow> string option \<Rightarrow> string option \<Rightarrow> string" where
  "create_full_address_bc address city postal =
     (let address_parts = (if str_truthy address then [strip (or_empty address)] else []);
          location_parts = (if str_truthy city then [strip (or_empty city)] else []);
          location_parts = location_parts @ [''BC''];
          location_parts = (if str_truthy postal then location_parts @ [strip (or_empty postal)]
                            else location_parts);
          address_parts = (if location_parts \<noteq> []
                           then address_parts @ [join '', '' location_parts]
                           else address_parts)
      in if address_parts \<noteq> [] then join '', '' address_parts else [])"

definition transform_row_to_schema_bc ::
    "row \<Rightarrow> py_error + ('t, 'f) document" where
  "transform_row_to_schema_bc r =
     (let license_number = clean_string_bc (row_get r ''Licence'');
          establishment_name = clean_string_bc (row_get r ''Establishment Name'');
          phone = parse_phone_number_bc (row_get r ''Phone'');
          address = clean_string_bc (row_get r ''Address'');
          city = clean_string_bc (row_get r ''City'');
          postal = extract_postal_code_bc (row_get r ''Postal'');
          status = clean_string_bc (row_get r ''Status'');
          business_address = create_full_address_bc address city postal;
          license_type = determine_license_type_bc establishment_name;
          smoke_shop = is_smoke_shop_bc establishment_name;
          license_status =
            (if str_truthy status \<and> lower (or_empty status) = ''open''
             then ''Active'' else ''Inactive'')
      in Inr
        [(''business_name'', opt_str establishment_name),
         (''license_number'', opt_str license_number),
         (''stateName'', VStr ''British Columbia''),
         (''city'', opt_str city),
         (''business_address'', VStr business_address),
         (''contact_information'', VDict
            [(''phone'', opt_str phone), (''email'', VNone), (''website'', VNone)]),
         (''owner'', VDict
            [(''name'', VNone), (''email'', VNone), (''role'', VNone), (''phone'', opt_str phone),
             (''govt_issued_id'', VNone)]),
         (''operator_name'', VNone),
         (''issue_date'', VNone),
         (''expiration_date'', VNone),
         (''license_type'', VStr license_type),
         (''license_status'', VStr license_status),
         (''jurisdiction'', VStr ''British Columbia''),
         (''regulatory_body'', VStr ''Liquor and Cannabis Regulation Branch''),
         (''entity_type'', VList [VStr license_type]),
         (''filing_documents_url'', VNone),
         (''license_conditions'', VList []),
         (''claimed'', VBool False),
         (''claimedBy'', VNone),
         (''claimedAt'', VNone),
         (''canojaVerified'', VBool True),
         (''adminVerificationRequired'', VBool False),
         (''featured'', VBool False),
         (''dba'', opt_str establishment_name),
         (''state_license_document'', VNone),
         (''utility_bill'', VNone),
         (''gps_validation'', VBool False),
         (''location'', VDict [(''type'', VStr ''Point''), (''coordinates'', VList [])]),
         (''smoke_shop'', VBool smoke_shop)])"

text \<open>The driver of bc.py is the loop of alberta.py, with no check on the document.\<close>

fun scrape_rows_bc :: "row list \<Rightarrow> ('t, 'f) document list" where
  "scrape_rows_bc [] = []"
| "scrape_rows_bc (r # rows) =
     (case transform_row_to_schema_bc r of
        Inr document \<Rightarrow> document # scrape_rows_bc rows
      | Inl e \<Rightarrow> scrape_rows_bc rows)"


section \<open>Saskatchewan\<close>

text \<open>\<^verbatim>\<open>clean_string\<close> and \<^verbatim>\<open>parse_date\<close> of saskatchewan.py are those of alberta.py.\<close>

definition clean_string_saskatchewan :: "raw \<Rightarrow> string option" where
  "clean_string_saskatchewan v =
     (if pd_isna v \<or> eq_empty v then None else Some (strip (py_str v)))"

definition parse_date_saskatchewan :: "('t, 'f) pylib \<Rightarrow> raw \<Rightarrow> string option" where
  "parse_date_saskatchewan lib date_value =
     (if pd_isna date_value then None
      else case to_datetime lib date_value of
             DtRaise \<Rightarrow> None
           | DtNaT \<Rightarrow> Some ''NaT''
           | DtTS parsed_date \<Rightarrow> Some (isoformat lib parsed_date))"

definition is_smoke_shop_saskatchewan :: "string option \<Rightarrow> bool" where
  "is_smoke_shop_saskatchewan operating_name =
     (if falsy operating_name then False
      else any_in [''smoke'', ''tobacco'', ''vape'', ''cigar''] (lower (or_empty operating_name)))"

text \<open>
  \<^verbatim>\<open>
    def create_full_address(self, street_address, city):
        address_parts = []
        if street_address and street_address.strip():
            address_parts.append(street_address.strip())
        if city and city.strip():
            address_parts.append(city.strip())
        if address_parts:
            address_parts.extend(['Saskatchewan', 'Canada'])
        return ', '.join(address_parts)
  \<close>
\<close>

definition create_full_address_saskatchewan :: "string option \<Rightarrow> string option \<Rightarrow> string" where
  "create_full_address_saskatchewan street_address city =
     (let address_parts =
            (if str_truthy street_address \<and> strip (or_empty street_address) \<noteq> []
             then [strip (or_empty street_address)] else []);
          address_parts =
            (if str_truthy city \<and> strip (or_empty city) \<noteq> []
             then address_parts @ [strip (or_empty city)] else address_parts);
          address_parts =
            (if address_parts \<noteq> [] then address_parts @ [''Saskatchewan'', ''Canada'']
             else address_parts)
      in join '', '' address_parts)"

text \<open>\<^verbatim>\<open>s.startswith(prefix)\<close>\<close>

definition startswith :: "string \<Rightarrow> string \<Rightarrow> bool" where
  "startswith s p = (take (length p) s = p)"

text \<open>
  The website is read from the row as it is, and \<^verbatim>\<open>.lower()\<close> is called on it: a cell
  that holds a number other than zero, or a timestamp, raises AttributeError.
  \<^verbatim>\<open>
    def clean_website_url(self, website):
        if not website or pd.isna(website) or website.lower() in ['n/a', 'none', '']:
            return None
        website = website.strip()
        if website and not website.startswith(('http://', 'https://')):
            website = 'https://' + website
        return website
  \<close>
\<close>

fun clean_website_url :: "raw \<Rightarrow> py_error + string option" where
  "clean_website_url RNone = Inr None"
| "clean_website_url RNaN = Inr None"
| "clean_website_url (RObj t s) = (if \<not> t then Inr None else Inl AttributeError)"
| "clean_website_url (RStr s) =
     (if s = [] \<or> lower s \<in> set [''n/a'', ''none'', ''''] then Inr None
      else let website = strip s in
        if website \<noteq> [] \<and> \<not> (startswith website ''http://'' \<or> startswith website ''https://'')
        then Inr (Some (''https://'' @ website))
        else Inr (Some website))"

text \<open>\<^verbatim>\<open>extract_phone_from_website_or_name\<close> is a placeholder that returns \<^verbatim>\<open>None\<close>.\<close>

definition extract_phone_from_website_or_name :: "string option \<Rightarrow> string option \<Rightarrow> string option" where
  "extract_phone_from_website_or_name website business_name = None"

definition transform_row_to_schema_saskatchewan ::
    "('t, 'f) pylib \<Rightarrow> row \<Rightarrow> py_error + ('t, 'f) document" where
  "transform_row_to_schema_saskatchewan lib r =
     (let permit_number = clean_string_saskatchewan (row_get r ''Permit Number'');
          status = clean_string_saskatchewan (row_get r ''Status'');
          city = clean_string_saskatchewan (row_get r ''City'');
          operating_name = clean_string_saskatchewan (row_get r ''Operating Name'');
          street_address = clean_string_saskatchewan (row_get r ''Street Address'')
      in case clean_website_url (row_get r ''Website'') of
           Inl e \<Rightarrow> Inl e
         | Inr website \<Rightarrow>
      let last_updated = parse_date_saskatchewan lib (row_get r ''Last Updated'');
          business_address = create_full_address_saskatchewan street_address city;
          license_type = determine_license_type_from_name operating_name;
          smoke_shop = is_smoke_shop_saskatchewan operating_name;
          phone = extract_phone_from_website_or_name website operating_name
      in Inr
        [(''business_name'', opt_str operating_name),
         (''license_number'', opt_str permit_number),
         (''stateName'', VStr ''Saskatchewan''),
         (''city'', opt_str city),
         (''business_address'', VStr business_address),
         (''contact_information'', VDict
            [(''phone'', opt_str phone), (''email'', VNone), (''website'', opt_str website)]),
         (''owner'', VDict
            [(''name'', VNone), (''email'', VNone), (''role'', VNone), (''phone'', opt_str phone),
             (''govt_issued_id'', VNone)]),
         (''operator_name'', opt_str operating_name),
         (''issue_date'', VNone),
         (''expiration_date'', VNone),
         (''license_type'', VStr license_type),
         (''license_status'', opt_str status),
         (''jurisdiction'', VStr ''Saskatchewan''),
         (''regulatory_body'', VStr ''Saskatchewan Liquor and Gaming Authority (SLGA)''),
         (''entity_type'', VList [VStr license_type]),
         (''filing_documents_url'', VNone),
         (''license_conditions'', VList []),
         (''claimed'', VBool False),
         (''claimedBy'', VNone),
         (''claimedAt'', VNone),
         (''canojaVerified'', VBool True),
         (''adminVerificationRequired'', VBool False),
         (''featured'', VBool False),
         (''dba'', opt_str operating_name),
         (''state_license_document'', VNone),
         (''utility_bill'', VNone),
         (''gps_validation'', VBool False),
         (''location'', VDict [(''type'', VStr ''Point''), (''coordinates'', VList [])]),
         (''smoke_shop'', VBool smoke_shop),
         (''permit_number'', opt_str permit_number),
         (''last_updated'', opt_str last_updated),
         (''data_source'', VStr ''SLGA Cannabis Retailers Registry'')])"

text \<open>The driver of saskatchewan.py is the loop of alberta.py, with no check on the document.\<close>

fun scrape_rows_saskatchewan :: "('t, 'f) pylib \<Rightarrow> row list \<Rightarrow> ('t, 'f) document list" where
  "scrape_rows_saskatchewan lib [] = []"
| "scrape_rows_saskatchewan lib (r # rows) =
     (case transform_row_to_schema_saskatchewan lib r of
        Inr document \<Rightarrow> document # scrape_rows_saskatchewan lib rows
      | Inl e \<Rightarrow> scrape_rows_saskatchewan lib rows)"


section \<open>Ontario\<close>

text \<open>
  A record of the JSON feed: a feature without an \<^verbatim>\<open>attributes\<close> member (the transform
  then reads the empty dict), a feature whose \<^verbatim>\<open>attributes\<close> member is not an object
  (\<^verbatim>\<open>null\<close>, say: it has no \<^verbatim>\<open>.get\<close>), or a feature with its attributes. The
  \<^verbatim>\<open>geometry\<close> member is fetched by the transform and not used.
\<close>

datatype feature = FeatureNoAttributes | FeatureBadAttributes | Feature row

text \<open>
  \<^verbatim>\<open>
    def clean_string(self, value):
        if value is None or value == '' or str(value).lower() in ['none', 'null', 'n/a', 'nan', '.']:
            return None
        return str(value).strip()
  \<close>
\<close>

definition clean_string_ontario :: "raw \<Rightarrow> string option" where
  "clean_string_ontario v =
     (if v = RNone \<or> eq_empty v \<or>
         lower (py_str v) \<in> set [''none'', ''null'', ''n/a'', ''nan'', ''.'']
      then None else Some (strip (py_str v)))"

text \<open>
  \<^verbatim>\<open>
    def parse_date(self, date_value):
        if not date_value or date_value in [None, '', 'null', 'None', '.']: return None
  \<close>
  and then as in colorado.py.
\<close>

definition parse_date_ontario :: "('t, 'f) pylib \<Rightarrow> raw \<Rightarrow> string option" where
  "parse_date_ontario lib date_value =
     (if \<not> truthy date_value \<or>
         date_value \<in> set [RNone, RStr '''', RStr ''null'', RStr ''None'', RStr ''.'']
      then None
      else case (if is_str date_value then to_datetime_coerce lib date_value
                 else to_datetime lib date_value) of
             DtRaise \<Rightarrow> None
           | DtNaT \<Rightarrow> None
           | DtTS parsed_date \<Rightarrow> Some (isoformat lib parsed_date))"

definition is_smoke_shop_ontario :: "string option \<Rightarrow> bool" where
  "is_smoke_shop_ontario business_name =
     (if falsy business_name then False
      else any_in [''smoke'', ''tobacco'', ''vape'', ''cigar'', ''head shop'']
             (lower (or_empty business_name)))"

definition get_license_status_ontario :: "string option \<Rightarrow> string" where
  "get_license_status_ontario application_status =
     (if falsy application_status then ''Active''
      else let status_lower = lower (or_empty application_status) in
        if contains ''authorized to open'' status_lower then ''Active''
        else if contains ''pending'' status_lower then ''Pending''
        else if contains ''denied'' status_lower \<or> contains ''rejected'' status_lower then ''Denied''
        else if contains ''suspended'' status_lower then ''Suspended''
        else ''Active'')"

text \<open>
  \<^verbatim>\<open>
        latitude = attributes.get('Latitude')
        longitude = attributes.get('Longitude')
        coordinates = []
        if longitude and latitude:
            try:
                coordinates = [float(longitude), float(latitude)]
            except (ValueError, TypeError):
                coordinates = []
  \<close>
  An error of \<^verbatim>\<open>float\<close> that is neither a ValueError nor a TypeError leaves the transform.
\<close>

definition caught :: "py_error \<Rightarrow> bool" where
  "caught e = (e = ValueError \<or> e = TypeError)"

definition extract_lon_lat :: "('t, 'f) pylib \<Rightarrow> raw \<Rightarrow> raw \<Rightarrow> py_error + 'f list" where
  "extract_lon_lat lib longitude latitude =
     (if truthy longitude \<and> truthy latitude
      then (case py_float lib longitude of
              Inl e \<Rightarrow> if caught e then Inr [] else Inl e
            | Inr x \<Rightarrow>
                (case py_float lib latitude of
                   Inl e \<Rightarrow> if caught e then Inr [] else Inl e
                 | Inr y \<Rightarrow> Inr [x, y]))
      else Inr [])"

definition transform_attributes_ontario ::
    "('t, 'f) pylib \<Rightarrow> row \<Rightarrow> py_error + ('t, 'f) document" where
  "transform_attributes_ontario lib attributes =
     (let premises_name = clean_string_ontario (row_get attributes ''PremisesName'');
          street_address = clean_string_ontario (row_get attributes ''StreetAddress'');
          city = clean_string_ontario (row_get attributes ''City'');
          province = clean_string_ontario (row_get attributes ''Province'');
          postal_code = clean_string_ontario (row_get attributes ''PostalCode'');
          application_status = clean_string_ontario (row_get attributes ''ApplicationStatus'');
          website = clean_string_ontario (row_get attributes ''Website'');
          public_notice_date = clean_string_ontario (row_get attributes ''PublicNoticeDate'');
          address_parts = keep_truthy [street_address];
          location_parts = keep_truthy [city] @ keep_truthy [province] @ keep_truthy [postal_code];
          address_parts = (if location_parts \<noteq> []
                           then address_parts @ [join '', '' location_parts]
                           else address_parts);
          business_address = (if address_parts \<noteq> [] then Some (join '', '' address_parts) else None);
          latitude = row_get attributes ''Latitude'';
          longitude = row_get attributes ''Longitude''
      in case extract_lon_lat lib longitude latitude of
           Inl e \<Rightarrow> Inl e
         | Inr coordinates \<Rightarrow>
      let license_type = determine_license_type_ontario premises_name;
          license_status = get_license_status_ontario application_status;
          smoke_shop = is_smoke_shop_ontario premises_name;
          issue_date =
            (if str_truthy public_notice_date \<and> public_notice_date \<noteq> Some ''.''
             then parse_date_ontario lib (raw_of public_notice_date) else None)
      in Inr
        [(''googlePlaceId'', VNone),
         (''business_name'', opt_str premises_name),
         (''license_number'', VNone),
         (''stateName'', VStr ''Ontario''),
         (''city'', opt_str city),
         (''business_address'', opt_str business_address),
         (''contact_information'', VDict
            [(''phone'', VNone), (''email'', VNone), (''website'', opt_str website)]),
         (''owner'', VDict
            [(''name'', VNone), (''email'', VNone), (''role'', VNone), (''phone'', VNone),
             (''govt_issued_id'', VNone)]),
         (''operator_name'', VNone),
         (''issue_date'', opt_str issue_date),
         (''expiration_date'', VNone),
         (''license_type'', VStr license_type),
         (''license_status'', VStr license_status),
         (''jurisdiction'', VStr ''Ontario''),
         (''regulatory_body'', VStr ''Alcohol and Gaming Commission of Ontario (AGCO)''),
         (''entity_type'', VList [VStr license_type]),
         (''filing_documents_url'', opt_str (clean_string_ontario (row_get attributes ''URLLink''))),
         (''license_conditions'', VList []),
         (''claimed'', VBool False),
         (''claimedBy'', VNone),
         (''claimedAt'', VNone),
         (''canojaVerified'', VBool True),
         (''adminVerificationRequired'', VBool False),
         (''featured'', VBool False),
         (''dba'', VNone),
         (''state_license_document'', VNone),
         (''utility_bill'', VNone),
         (''gps_validation'', VBool (coordinates \<noteq> [])),
         (''location'', VDict
            [(''type'', VStr ''Point''), (''coordinates'', VList (map VFloat coordinates))]),
         (''smoke_shop'', VBool smoke_shop),
         (''application_status'', opt_str application_status),
         (''objectid'', of_raw (row_get attributes ''OBJECTID'')),
         (''postal_code'', opt_str postal_code)])"

text \<open>
  \<^verbatim>\<open>
    def transform_record_to_schema(self, record):
        attributes = record.get('attributes', {})
        geometry = record.get('geometry', {})
        ...
  \<close>
\<close>

fun transform_record_to_schema :: "('t, 'f) pylib \<Rightarrow> feature \<Rightarrow> py_error + ('t, 'f) document" where
  "transform_record_to_schema lib FeatureNoAttributes = transform_attributes_ontario lib Map.empty"
| "transform_record_to_schema lib FeatureBadAttributes = Inl AttributeError"
| "transform_record_to_schema lib (Feature attributes) = transform_attributes_ontario lib attributes"

text \<open>
  \<^verbatim>\<open>
        for index, record in enumerate(self.data):
            try:
                document = self.transform_record_to_schema(record)
                if document['business_name']:
                    documents.append(document)
                    processed_count += 1
                else:
                    print(f"Skipping record {index + 1}: Missing business name")
            except Exception as e:
                error_count += 1
                continue
  \<close>
\<close>

fun scrape_records_ontario :: "('t, 'f) pylib \<Rightarrow> feature list \<Rightarrow> ('t, 'f) document list" where
  "scrape_records_ontario lib [] = []"
| "scrape_records_ontario lib (record # records) =
     (case transform_record_to_schema lib record of
        Inr document \<Rightarrow>
          if doc_truthy document ''business_name''
          then document # scrape_records_ontario lib records
          else scrape_records_ontario lib records
      | Inl e \<Rightarrow> scrape_records_ontario lib records)"


section \<open>Jamaica\<close>

text \<open>
  The cells of the table are read with \<^verbatim>\<open>get_text()\<close>, so the cleaner is given a string:
  \<^verbatim>\<open>
    def clean_string(self, value):
        if not value or pd.isna(value): return None
        return str(value).strip()
  \<close>
\<close>

definition clean_string_jamaica :: "string \<Rightarrow> string option" where
  "clean_string_jamaica v = (if v = [] then None else Some (strip v))"

text \<open>
  \<^verbatim>\<open>
    def parse_date(self, date_str):
        if not date_str or pd.isna(date_str): return None
        try:
            parsed_date = pd.to_datetime(date_str, errors='coerce')
            if pd.isna(parsed_date): return None
            return parsed_date.isoformat()
        except:
            return None
  \<close>
\<close>

definition parse_date_jamaica :: "('t, 'f) pylib \<Rightarrow> string option \<Rightarrow> string option" where
  "parse_date_jamaica lib date_str =
     (if \<not> str_truthy date_str then None
      else case to_datetime_coerce lib (raw_of date_str) of
             DtRaise \<Rightarrow> None
           | DtNaT \<Rightarrow> None
           | DtTS parsed_date \<Rightarrow> Some (isoformat lib parsed_date))"

definition parishes :: "string list" where
  "parishes =
     [''Kingston'', ''St. Andrew'', ''Saint Andrew'', ''St Andrew'',
      ''St. Catherine'', ''Saint Catherine'', ''St Catherine'',
      ''Clarendon'', ''Manchester'', ''Westmoreland'', ''St. James'',
      ''Saint James'', ''St James'', ''Hanover'', ''Trelawny'',
      ''St. Ann'', ''Saint Ann'', ''St Ann'', ''St. Mary'', ''Saint Mary'', ''St Mary'',
      ''Portland'', ''St. Thomas'', ''Saint Thomas'', ''St Thomas'']"

text \<open>
  \<^verbatim>\<open>
    def extract_city_from_address(self, address):
        if not address: return None
        address_lower = address.lower()
        for parish in parishes:
            if parish.lower() in address_lower: return parish
        if 'p.o.' in address_lower:
            parts = address.split(',')
            for part in parts:
                part = part.strip()
                if any(parish.lower() in part.lower() for parish in parishes):
                    return part
        return None
  \<close>
\<close>

definition extract_city_from_address :: "string option \<Rightarrow> string option" where
  "extract_city_from_address address =
     (if falsy address then None
      else let address_lower = lower (or_empty address) in
        case find (\<lambda>parish. contains (lower parish) address_lower) parishes of
          Some parish \<Rightarrow> Some parish
        | None \<Rightarrow>
            if contains ''p.o.'' address_lower
            then find (\<lambda>part. list_ex (\<lambda>parish. contains (lower parish) (lower part)) parishes)
                   (map strip (split_on CHR '','' (or_empty address)))
            else None)"

text \<open>
  A fetched page: the rows of its first table after the header row, each row the texts of
  its \<^verbatim>\<open>td\<close> cells (\<open>None\<close> when the page has no table), and whether the page has a link
  whose text matches the pattern for "next" that the loop looks for.
\<close>

record page =
  table_rows :: "string list list option"
  next_link :: bool

definition row_document_jamaica :: "('t, 'f) pylib \<Rightarrow> string list \<Rightarrow> ('t, 'f) document" where
  "row_document_jamaica lib cells =
     (let licensee = clean_string_jamaica (cells ! 0);
          license_type = clean_string_jamaica (cells ! 1);
          business_address = clean_string_jamaica (cells ! 2);
          expiry_date = clean_string_jamaica (cells ! 3);
          city = extract_city_from_address business_address;
          mapped_license_type = determine_license_type_jamaica license_type;
          parsed_expiry = parse_date_jamaica lib expiry_date
      in
        [(''business_name'', opt_str licensee),
         (''license_number'', VNone),
         (''stateName'', VStr ''Jamaica''),
         (''city'', opt_str city),
         (''business_address'', opt_str business_address),
         (''contact_information'', VDict
            [(''phone'', VNone), (''email'', VNone), (''website'', VNone)]),
         (''owner'', VDict
            [(''name'', opt_str licensee), (''email'', VNone), (''role'', VStr ''Owner''),
             (''phone'', VNone), (''govt_issued_id'', VNone)]),
         (''operator_name'', opt_str licensee),
         (''issue_date'', VNone),
         (''expiration_date'', opt_str parsed_expiry),
         (''license_type'', VStr mapped_license_type),
         (''license_status'', VStr ''Active''),
         (''jurisdiction'', VStr ''Jamaica''),
         (''regulatory_body'', VStr ''Cannabis Licensing Authority (CLA)''),
         (''entity_type'', VList [VStr mapped_license_type]),
         (''filing_documents_url'', VNone),
         (''license_conditions'', VList []),
         (''claimed'', VBool False),
         (''claimedBy'', VNone),
         (''claimedAt'', VNone),
         (''canojaVerified'', VBool True),
         (''adminVerificationRequired'', VBool False),
         (''featured'', VBool False),
         (''dba'', opt_str licensee),
         (''state_license_document'', VNone),
         (''utility_bill'', VNone),
         (''gps_validation'', VBool False),
         (''location'', VDict [(''type'', VStr ''Point''), (''coordinates'', VList [])]),
         (''smoke_shop'', VBool False),
         (''original_license_type'', opt_str license_type)])"

text \<open>
  \<^verbatim>\<open>
        for row in rows:
            cells = row.find_all('td')
            if len(cells) >= 4:
                try:
                    ...
                    licenses.append(document)
                except Exception as e:
                    continue
  \<close>
  With four cells in hand nothing in the body raises.
\<close>

fun scrape_rows_jamaica :: "('t, 'f) pylib \<Rightarrow> string list list \<Rightarrow> ('t, 'f) document list" where
  "scrape_rows_jamaica lib [] = []"
| "scrape_rows_jamaica lib (cells # rows) =
     (if 4 \<le> length cells
      then row_document_jamaica lib cells # scrape_rows_jamaica lib rows
      else scrape_rows_jamaica lib rows)"

definition scrape_table_data_jamaica :: "('t, 'f) pylib \<Rightarrow> page \<Rightarrow> ('t, 'f) document list" where
  "scrape_table_data_jamaica lib soup =
     (case table_rows soup of None \<Rightarrow> [] | Some rows \<Rightarrow> scrape_rows_jamaica lib rows)"

text \<open>
  The messages \<^verbatim>\<open>scrape_all_pages\<close> prints, in the order of the source: scraping page n,
  failed to fetch page n, no licenses found on page n, found k licenses on page n, no
  more pages found, reached the maximum page limit.
\<close>

datatype message =
    Scraping nat
  | FailedToFetch nat
  | NoLicensesFound nat
  | Found nat nat
  | NoMorePages
  | ReachedLimit

text \<open>
  The web is a function from page numbers to what \<^verbatim>\<open>fetch_page\<close> returns for the URL
  of that page (\<open>None\<close> when the request fails). The loop, with the list collected so far
  and the messages printed so far:
  \<^verbatim>\<open>
        all_licenses = []
        page_num = 1
        while True:
            print(f"Scraping page {page_num}...")
            url = self.base_url if page_num == 1 else f"{self.base_url}?page={page_num}"
            soup = self.fetch_page(url)
            if not soup:
                print(f"Failed to fetch page {page_num}"); break
            page_licenses = self.scrape_table_data(soup)
            if not page_licenses:
                print(f"No licenses found on page {page_num}, stopping."); break
            all_licenses.extend(page_licenses)
            print(f"Found {len(page_licenses)} licenses on page {page_num}")
            next_link = soup.find('a', text=re.compile(r'next|...', re.I))
            if not next_link:
                print("No more pages found."); break
            page_num += 1
            time.sleep(1)
            if page_num > 50:
                print("Reached maximum page limit (50), stopping."); break
        return all_licenses
  \<close>
\<close>

function scrape_pages ::
    "('t, 'f) pylib \<Rightarrow> (nat \<Rightarrow> page option) \<Rightarrow> nat \<Rightarrow> ('t, 'f) document list \<Rightarrow> message list \<Rightarrow>
     ('t, 'f) document list \<times> message list" where
  "scrape_pages lib web page_num all_licenses out =
     (let out = out @ [Scraping page_num] in
        case web page_num of
          None \<Rightarrow> (all_licenses, out @ [FailedToFetch page_num])
        | Some soup \<Rightarrow>
            let page_licenses = scrape_table_data_jamaica lib soup in
              if page_licenses = [] then (all_licenses, out @ [NoLicensesFound page_num])
              else
                let all_licenses = all_licenses @ page_licenses;
                    out = out @ [Found (length page_licenses) page_num]
                in if \<not> next_link soup then (all_licenses, out @ [NoMorePages])
                   else if page_num + 1 > 50 then (all_licenses, out @ [ReachedLimit])
                   else scrape_pages lib web (page_num + 1) all_licenses out)"
  by pat_completeness auto
termination
  by (relation "measure (\<lambda>(lib, web, page_num, all_licenses, out). 51 - page_num)") auto

declare scrape_pages.simps [simp del]

definition scrape_all_pages ::
    "('t, 'f) pylib \<Rightarrow> (nat \<Rightarrow> page option) \<Rightarrow> ('t, 'f) document list \<times> message list" where
  "scrape_all_pages lib web = scrape_pages lib web 1 [] []"

text \<open>The page numbers the loop asked for, read off the messages.\<close>

fun scraped_pages :: "message list \<Rightarrow> nat list" where
  "scraped_pages [] = []"
| "scraped_pages (Scraping n # ms) = n # scraped_pages ms"
| "scraped_pages (m # ms) = scraped_pages ms"

section \<open>The federal registry\<close>

text \<open>
  \<^verbatim>\<open>
    def parse_license_types(self, license_cell_text):
        if not license_cell_text: return []
        license_types = []
        text = license_cell_text.lower()
        if 'micro-processing' in text: license_types.append('micro-processing')
        elif 'processing' in text: license_types.append('processing')
        if 'micro-cultivation' in text: license_types.append('micro-cultivation')
        elif 'cultivation' in text: license_types.append('cultivation')
        if 'sale' in text: license_types.append('retail')
        return license_types if license_types else ['other']
  \<close>
\<close>

definition parse_license_types :: "string \<Rightarrow> string list" where
  "parse_license_types license_cell_text =
     (if license_cell_text = [] then []
      else let text = lower license_cell_text;
               license_types =
                 (if contains ''micro-processing'' text then [''micro-processing'']
                  else if contains ''processing'' text then [''processing''] else []) @
                 (if contains ''micro-cultivation'' text then [''micro-cultivation'']
                  else if contains ''cultivation'' text then [''cultivation''] else []) @
                 (if contains ''sale'' text then [''retail''] else [])
           in if license_types \<noteq> [] then license_types else [''other''])"

definition parse_authorized_products :: "string \<Rightarrow> string list" where
  "parse_authorized_products products_text =
     (if products_text = [] then []
      else let text = lower products_text in
        (if contains ''plants'' text \<or> contains ''seeds'' text then [''plants_seeds''] else []) @
        (if contains ''dried'' text \<or> contains ''fresh'' text then [''dried_fresh''] else []) @
        (if contains ''extracts'' text then [''extracts''] else []) @
        (if contains ''edible'' text then [''edibles''] else []) @
        (if contains ''topical'' text then [''topicals''] else []))"

definition determine_license_status :: "string \<Rightarrow> string" where
  "determine_license_status license_text =
     (if license_text = [] then ''Unknown''
      else if contains ''revoked'' (lower license_text) then ''Revoked'' else ''Active'')"

text \<open>Decimal digits and numbers.\<close>

definition digit_val :: "char \<Rightarrow> nat" where
  "digit_val c = length (takeWhile (\<lambda>d. d \<noteq> c) ''0123456789'')"

definition nat_of_digits :: "string \<Rightarrow> nat" where
  "nat_of_digits s = foldl (\<lambda>n c. 10 * n + digit_val c) 0 s"

definition digit_char :: "nat \<Rightarrow> char" where
  "digit_char n = ''0123456789'' ! (n mod 10)"

definition pad2 :: "nat \<Rightarrow> string" where
  "pad2 n = [digit_char (n div 10), digit_char n]"

definition pad4 :: "nat \<Rightarrow> string" where
  "pad4 n = [digit_char (n div 1000), digit_char (n div 100), digit_char (n div 10), digit_char n]"

definition is_leap :: "nat \<Rightarrow> bool" where
  "is_leap y = (y mod 4 = 0 \<and> (y mod 100 \<noteq> 0 \<or> y mod 400 = 0))"

definition days_in_month :: "nat \<Rightarrow> nat \<Rightarrow> nat" where
  "days_in_month y m =
     (if m = 2 then (if is_leap y then 29 else 28)
      else if m \<in> set [4, 6, 9, 11] then 30 else 31)"

text \<open>\<^verbatim>\<open>re.match(r'\d{4}-\d{2}-\d{2}', s)\<close>: the string begins with the pattern.\<close>

definition re_match_ymd :: "string \<Rightarrow> bool" where
  "re_match_ymd s =
     (10 \<le> length s \<and> list_all is_digit (take 4 s) \<and> s ! 4 = CHR ''-'' \<and>
      list_all is_digit (take 2 (drop 5 s)) \<and> s ! 7 = CHR ''-'' \<and>
      list_all is_digit (take 2 (drop 8 s)))"

text \<open>
  \<^verbatim>\<open>datetime.strptime(s, '%Y-%m-%d')\<close> on a string that begins with four digits, a
  hyphen, two digits, a hyphen and two digits: the date (year, month, day), or \<open>None\<close>
  for the ValueError raised when text follows the date, when the month is not 01 to 12,
  when the day is not a day of that month, or when the year is 0000.
\<close>

definition strptime_ymd :: "string \<Rightarrow> (nat \<times> nat \<times> nat) option" where
  "strptime_ymd s =
     (let y = nat_of_digits (take 4 s);
          m = nat_of_digits (take 2 (drop 5 s));
          d = nat_of_digits (take 2 (drop 8 s))
      in if length s = 10 \<and> 1 \<le> y \<and> 1 \<le> m \<and> m \<le> 12 \<and> 1 \<le> d \<and> d \<le> days_in_month y m
         then Some (y, m, d) else None)"

text \<open>\<^verbatim>\<open>isoformat()\<close> of the datetime at midnight of a date.\<close>

definition isoformat_ymd :: "nat \<times> nat \<times> nat \<Rightarrow> string" where
  "isoformat_ymd t =
     (case t of (y, m, d) \<Rightarrow> pad4 y @ ''-'' @ pad2 m @ ''-'' @ pad2 d @ ''T00:00:00'')"

text \<open>
  The date parser of federal.py is only called on the text of a table cell:
  \<^verbatim>\<open>
    def parse_date(self, date_str):
        if not date_str or date_str.lower() in ['n/a', 'none']: return None
        try:
            if re.match(r'\d{4}-\d{2}-\d{2}', date_str):
                parsed_date = datetime.strptime(date_str, '%Y-%m-%d')
                return parsed_date.isoformat()
        except:
            return None
        return None
  \<close>
\<close>

definition parse_date_federal :: "string \<Rightarrow> string option" where
  "parse_date_federal date_str =
     (if date_str = [] \<or> lower date_str \<in> set [''n/a'', ''none''] then None
      else if re_match_ymd date_str
      then (case strptime_ymd date_str of
              Some parsed_date \<Rightarrow> Some (isoformat_ymd parsed_date)
            | None \<Rightarrow> None)
      else None)"

text \<open>\<^verbatim>\<open>cells[i].get_text(strip=True) if len(cells) > i else ""\<close>, on the texts of the cells.\<close>

definition cell_text :: "string list \<Rightarrow> nat \<Rightarrow> string" where
  "cell_text cells i = (if i < length cells then cells ! i else [])"

definition row_document_federal :: "string list \<Rightarrow> ('t, 'f) document" where
  "row_document_federal cells =
     (let license_holder = cell_text cells 0;
          province = cell_text cells 1;
          licenses = cell_text cells 2;
          authorized_products = cell_text cells 3;
          registered_patients = cell_text cells 4;
          client_care_phone = cell_text cells 5;
          initial_license_date = cell_text cells 6;
          license_types = parse_license_types licenses;
          products = parse_authorized_products authorized_products;
          phone = clean_phone_number client_care_phone;
          issue_date = parse_date_federal initial_license_date;
          license_status = determine_license_status licenses
      in
        [(''business_name'', VStr license_holder),
         (''license_number'', VNone),
         (''stateName'', VStr ''Federal''),
         (''city'', VNone),
         (''business_address'', VNone),
         (''contact_information'', VDict
            [(''phone'', opt_str phone), (''email'', VNone), (''website'', VNone)]),
         (''owner'', VDict
            [(''name'', VNone), (''email'', VNone), (''role'', VNone), (''phone'', opt_str phone),
             (''govt_issued_id'', VNone)]),
         (''operator_name'', VStr license_holder),
         (''issue_date'', opt_str issue_date),
         (''expiration_date'', VNone),
         (''license_type'', VStr (if license_types \<noteq> [] then hd license_types else ''other'')),
         (''license_status'', VStr license_status),
         (''jurisdiction'', VStr province),
         (''regulatory_body'', VStr ''Health Canada''),
         (''entity_type'', VList (map VStr license_types)),
         (''filing_documents_url'', VNone),
         (''license_conditions'', VList []),
         (''claimed'', VBool False),
         (''claimedBy'', VNone),
         (''claimedAt'', VNone),
         (''canojaVerified'', VBool True),
         (''adminVerificationRequired'', VBool False),
         (''featured'', VBool False),
         (''dba'', VStr license_holder),
         (''state_license_document'', VNone),
         (''utility_bill'', VNone),
         (''gps_validation'', VBool False),
         (''location'', VDict [(''type'', VStr ''Point''), (''coordinates'', VList [])]),
         (''smoke_shop'', VBool False),
         (''authorized_products'', VList (map VStr products)),
         (''registered_patients_authorized'', VStr registered_patients),
         (''source'', VStr ''Health Canada Official Registry'')])"


fun scrape_rows_federal :: "string list list \<Rightarrow> ('t, 'f) document list" where
  "scrape_rows_federal [] = []"
| "scrape_rows_federal (cells # rows) =
     (if length cells < 4 then scrape_rows_federal rows
      else row_document_federal cells # scrape_rows_federal rows)"


section \<open>A library for running the definitions\<close>

text \<open>
  Concrete records are run against a small stand-in for the libraries: timestamps are
  dates (year, month, day), floats are integers. It reads a date written \<open>YYYY-MM-DD\<close>
  and a float written in digits, as pandas and \<^verbatim>\<open>float\<close> do, and refuses everything else
  (by raising, or with \<^verbatim>\<open>NaT\<close> when errors are coerced); it is used on such inputs only.
\<close>

definition days_from_civil :: "nat \<times> nat \<times> nat \<Rightarrow> int" where
  "days_from_civil t =
     (case t of (y, m, d) \<Rightarrow>
        let y' = (if m \<le> 2 then int y - 1 else int y);
            era = y' div 400;
            yoe = y' - era * 400;
            mp = (if 2 < m then int m - 3 else int m + 9);
            doy = (153 * mp + 2) div 5 + int d - 1;
            doe = yoe * 365 + yoe div 4 - yoe div 100 + doy
        in era * 146097 + doe - 719468)"

definition read_date :: "bool \<Rightarrow> raw \<Rightarrow> (nat \<times> nat \<times> nat) dtres" where
  "read_date coerce v =
     (case v of
        RStr s \<Rightarrow>
          (case (if re_match_ymd s then strptime_ymd s else None) of
             Some t \<Rightarrow> DtTS t
           | None \<Rightarrow> if coerce then DtNaT else DtRaise)
      | _ \<Rightarrow> DtRaise)"

definition read_float :: "raw \<Rightarrow> py_error + int" where
  "read_float v =
     (case v of
        RStr s \<Rightarrow> if s \<noteq> [] \<and> list_all is_digit s then Inr (int (nat_of_digits s))
                  else Inl ValueError
      | RObj t s \<Rightarrow> if s \<noteq> [] \<and> list_all is_digit s then Inr (int (nat_of_digits s))
                    else Inl TypeError
      | _ \<Rightarrow> Inl TypeError)"

definition test_lib :: "(nat \<times> nat \<times> nat, int) pylib" where
  "test_lib =
     \<lparr> to_datetime = read_date False,
       to_datetime_coerce = read_date True,
       isoformat = isoformat_ymd,
       days_between = (\<lambda>a b. Inr (days_from_civil a - days_from_civil b)),
       py_float = read_float \<rparr>"

section \<open>Notions used in the properties\<close>

text \<open>
  Notions for the run of \<^verbatim>\<open>scrape_all_pages\<close>: the licenses page \<open>i\<close> yields, whether
  the loop goes on after page \<open>i\<close> (the page was fetched, has licenses and has a next
  link), and the message the loop prints when it stops at page \<open>k\<close>; and a web in
  which every page has a license and a next link.
\<close>

definition page_licenses :: "('t, 'f) pylib \<Rightarrow> (nat \<Rightarrow> page option) \<Rightarrow> nat \<Rightarrow> ('t, 'f) document list" where
  "page_licenses lib web i =
     (case web i of None \<Rightarrow> [] | Some soup \<Rightarrow> scrape_table_data_jamaica lib soup)"

definition page_continues :: "('t, 'f) pylib \<Rightarrow> (nat \<Rightarrow> page option) \<Rightarrow> nat \<Rightarrow> bool" where
  "page_continues lib web i =
     (case web i of None \<Rightarrow> False
      | Some soup \<Rightarrow> scrape_table_data_jamaica lib soup \<noteq> [] \<and> next_link soup)"

definition stop_message :: "('t, 'f) pylib \<Rightarrow> (nat \<Rightarrow> page option) \<Rightarrow> nat \<Rightarrow> message" where
  "stop_message lib web k =
     (case web k of None \<Rightarrow> FailedToFetch k
      | Some soup \<Rightarrow>
          if scrape_table_data_jamaica lib soup = [] then NoLicensesFound k
          else if \<not> next_link soup then NoMorePages else ReachedLimit)"

definition endless_web :: "nat \<Rightarrow> page option" where
  "endless_web n =
     Some \<lparr> table_rows = Some [[''Island Strains'', ''Transport'', ''Kingston'', ''2025-01-12'']],
            next_link = True \<rparr>"

text \<open>The attributes the transform of a feature reads, and two features of the feed.\<close>

fun feature_attributes :: "feature \<Rightarrow> row" where
  "feature_attributes (Feature attributes) = attributes"
| "feature_attributes f = Map.empty"

definition toronto_shop :: "feature" where
  "toronto_shop =
     Feature [''PremisesName'' \<mapsto> RStr ''Queen St Cannabis'',
              ''Longitude'' \<mapsto> RStr ''79'', ''Latitude'' \<mapsto> RStr ''43'']"

definition equator_shop :: "feature" where
  "equator_shop =
     Feature [''PremisesName'' \<mapsto> RStr ''Line Store'',
              ''Longitude'' \<mapsto> RStr ''79'', ''Latitude'' \<mapsto> RObj False ''0'']"

text \<open>A field of the document a transform returns, and a row of the Colorado workbook.\<close>

definition doc_field :: "py_error + ('t, 'f) document \<Rightarrow> string \<Rightarrow> ('t, 'f) pyval option" where
  "doc_field res key = (case res of Inr document \<Rightarrow> map_of document key | Inl e \<Rightarrow> None)"

definition denver_row :: row where
  "denver_row =
     [''License Number'' \<mapsto> RStr ''402-00001'', ''Facility Name'' \<mapsto> RStr ''Green Leaf'',
      ''Date Updated'' \<mapsto> RStr ''2024-03-05'']"

section \<open>The schema of a document\<close>









text \<open>
  The documents of the records whose transform returned, in the order of the records;
  rows for running the drivers: a Saskatchewan row whose Website cell holds a number, the
  four empty cells of a table row, and a Saskatchewan row with a permit and a name.
\<close>

definition successes :: "('r \<Rightarrow> py_error + 'd) \<Rightarrow> 'r list \<Rightarrow> 'd list" where
  "successes transform records =
     concat (map (\<lambda>r. case transform r of Inr document \<Rightarrow> [document] | Inl e \<Rightarrow> []) records)"




section \<open>Properties\<close>

subsection \<open>Phone numbers\<close>

lemma parse_phone_spec_other:
  "length ds \<noteq> 10 \<Longrightarrow> length ds \<noteq> 11 \<or> hd ds \<noteq> CHR ''1'' \<Longrightarrow>
   parse_phone_spec m ds = (if m \<le> length ds then Some ds else None)"
  by (induction m ds rule: parse_phone_spec.induct) auto

lemma length_10_cases:
  assumes "length ds = 10"
  obtains a b c d e f g h i j where "ds = [a, b, c, d, e, f, g, h, i, j]"
  using assms by (auto simp: length_Suc_conv eval_nat_numeral)

lemma length_11_cases:
  assumes "length ds = 11"
  obtains l a b c d e f g h i j where "ds = [l, a, b, c, d, e, f, g, h, i, j]"
  using assms by (auto simp: length_Suc_conv eval_nat_numeral)

lemma phone_layout_min1:
  "(let d = ds in
      if length d = 10
      then Some (''('' @ take 3 d @ '') '' @ take 3 (drop 3 d) @ ''-'' @ drop 6 d)
      else if length d = 11 \<and> hd d = CHR ''1''
      then Some (''1-('' @ take 3 (drop 1 d) @ '') '' @ take 3 (drop 4 d) @ ''-'' @ drop 7 d)
      else if d \<noteq> [] then Some d else None) = parse_phone_spec 1 ds"
proof (cases "length ds = 10")
  case True
  then obtain a b c d e f g h i j where "ds = [a, b, c, d, e, f, g, h, i, j]"
    by (rule length_10_cases)
  then show ?thesis by simp
next
  case n10: False
  show ?thesis
  proof (cases "length ds = 11 \<and> hd ds = CHR ''1''")
    case True
    then have "length ds = 11" by simp
    then obtain l a b c d e f g h i j where "ds = [l, a, b, c, d, e, f, g, h, i, j]"
      by (rule length_11_cases)
    with True show ?thesis by simp
  next
    case False
    then have "length ds \<noteq> 11 \<or> hd ds \<noteq> CHR ''1''" by simp
    from parse_phone_spec_other [OF n10 this, of 1] n10 False show ?thesis
      by (cases ds) (auto simp: Let_def)
  qed
qed

lemma phone_layout_min7:
  "(let d = ds in
      if d = [] then None
      else if length d = 10
      then Some (''('' @ take 3 d @ '') '' @ take 3 (drop 3 d) @ ''-'' @ drop 6 d)
      else if length d = 11 \<and> hd d = CHR ''1''
      then Some (''1-('' @ take 3 (drop 1 d) @ '') '' @ take 3 (drop 4 d) @ ''-'' @ drop 7 d)
      else if 7 \<le> length d then Some d
      else None) = parse_phone_spec 7 ds"
proof (cases "length ds = 10")
  case True
  then obtain a b c d e f g h i j where "ds = [a, b, c, d, e, f, g, h, i, j]"
    by (rule length_10_cases)
  then show ?thesis by simp
next
  case n10: False
  show ?thesis
  proof (cases "length ds = 11 \<and> hd ds = CHR ''1''")
    case True
    then have "length ds = 11" by simp
    then obtain l a b c d e f g h i j where "ds = [l, a, b, c, d, e, f, g, h, i, j]"
      by (rule length_11_cases)
    with True show ?thesis by simp
  next
    case False
    then have "length ds \<noteq> 11 \<or> hd ds \<noteq> CHR ''1''" by simp
    from parse_phone_spec_other [OF n10 this, of 7] n10 False show ?thesis
      by (cases ds) (auto simp: Let_def)
  qed
qed

text \<open>
  C5. Each phone parser drops every character that is not a digit and then lays the
  digits out as the spec says: ten digits as \<open>(XXX) XXX-XXXX\<close>, eleven digits with a
  leading 1 as \<open>1-(XXX) XXX-XXXX\<close>, and any other digit string unchanged when it reaches
  the jurisdiction's minimum length (one digit in Alberta, British Columbia and the federal
  registry, seven digits in Colorado), absent otherwise. A value that is empty, missing
  or NaN (or, in the federal registry, the text n/a or none) is absent. The three phone
  numbers of the spec come out as stated, in every jurisdiction.
\<close>

theorem parse_phone_number_layout:
  "parse_phone_number_alberta v =
     (if truthy v \<and> \<not> pd_isna v then parse_phone_spec 1 (digits_only (py_str v)) else None) \<and>
   parse_phone_number_bc v =
     (if truthy v \<and> \<not> pd_isna v then parse_phone_spec 1 (digits_only (py_str v)) else None) \<and>
   parse_phone_number_colorado v =
     (if truthy v \<and> \<not> pd_isna v then parse_phone_spec 7 (digits_only (py_str v)) else None) \<and>
   clean_phone_number s =
     (if s \<noteq> [] \<and> lower s \<noteq> ''n/a'' \<and> lower s \<noteq> ''none''
      then parse_phone_spec 1 (digits_only s) else None) \<and>
   parse_phone_number_alberta (RStr ''403-555-1234'') = Some ''(403) 555-1234'' \<and>
   parse_phone_number_alberta (RStr ''14035551234'') = Some ''1-(403) 555-1234'' \<and>
   parse_phone_number_alberta (RStr ''abc'') = None \<and>
   parse_phone_number_colorado (RStr ''403-555-1234'') = Some ''(403) 555-1234'' \<and>
   parse_phone_number_colorado (RStr ''14035551234'') = Some ''1-(403) 555-1234'' \<and>
   parse_phone_number_colorado (RStr ''abc'') = None"
proof -
  have a: "parse_phone_number_alberta v =
     (if truthy v \<and> \<not> pd_isna v then parse_phone_spec 1 (digits_only (py_str v)) else None)"
    unfolding parse_phone_number_alberta_def
    using phone_layout_min1 [of "digits_only (py_str v)"] by (simp add: Let_def)
  have b: "parse_phone_number_bc v =
     (if truthy v \<and> \<not> pd_isna v then parse_phone_spec 1 (digits_only (py_str v)) else None)"
    unfolding parse_phone_number_bc_def
    using phone_layout_min1 [of "digits_only (py_str v)"] by (simp add: Let_def)
  have c: "parse_phone_number_colorado v =
     (if truthy v \<and> \<not> pd_isna v then parse_phone_spec 7 (digits_only (py_str v)) else None)"
    unfolding parse_phone_number_colorado_def
    using phone_layout_min7 [of "digits_only (py_str v)"] by (simp add: Let_def)
  have f: "clean_phone_number s =
     (if s \<noteq> [] \<and> lower s \<noteq> ''n/a'' \<and> lower s \<noteq> ''none''
      then parse_phone_spec 1 (digits_only s) else None)"
    unfolding clean_phone_number_def
    using phone_layout_min1 [of "digits_only s"] by (simp add: Let_def)
  have e1: "parse_phone_number_alberta (RStr ''403-555-1234'') = Some ''(403) 555-1234''"
    by (simp add: parse_phone_number_alberta_def digits_only_def is_digit_def)
  have e2: "parse_phone_number_alberta (RStr ''14035551234'') = Some ''1-(403) 555-1234''"
    by (simp add: parse_phone_number_alberta_def digits_only_def is_digit_def)
  have e3: "parse_phone_number_alberta (RStr ''abc'') = None"
    by (simp add: parse_phone_number_alberta_def digits_only_def is_digit_def)
  have e4: "parse_phone_number_colorado (RStr ''403-555-1234'') = Some ''(403) 555-1234''"
    by (simp add: parse_phone_number_colorado_def digits_only_def is_digit_def)
  have e5: "parse_phone_number_colorado (RStr ''14035551234'') = Some ''1-(403) 555-1234''"
    by (simp add: parse_phone_number_colorado_def digits_only_def is_digit_def)
  have e6: "parse_phone_number_colorado (RStr ''abc'') = None"
    by (simp add: parse_phone_number_colorado_def digits_only_def is_digit_def)
  from a b c f e1 e2 e3 e4 e5 e6 show ?thesis by blast
qed

theorem parse_phone_number_layout_witness:
  "parse_phone_number_alberta (RStr ''555-1234 ext 9'') = Some ''55512349'' \<and>
   parse_phone_number_bc (RStr ''555-1234 ext 9'') = Some ''55512349'' \<and>
   parse_phone_number_colorado (RStr ''555-1234 ext 9'') = Some ''55512349'' \<and>
   clean_phone_number ''12'' = Some ''12''"
  using parse_phone_number_layout [of "RStr ''555-1234 ext 9''" "''12''"]
  by (simp add: digits_only_def is_digit_def lower_def lower_char_def)

subsection \<open>Classification of the license type\<close>

lemma any_in_two: "any_in [a, b] t = (contains a t \<or> contains b t)"
  by (simp add: any_in_def)

lemma any_in_one: "any_in [a] t = contains a t"
  by (simp add: any_in_def)

text \<open>The classifier of the spec returns the category of the first group that matches.\<close>

lemma classify_first_group:
  "list_all (\<lambda>g. \<not> any_in (snd g) t) before \<Longrightarrow> any_in ks t \<Longrightarrow>
   classify_license_type (before @ (c, ks) # after) d t = c"
  by (induction before) auto

lemma classify_no_group:
  "list_all (\<lambda>g. \<not> any_in (snd g) t) gs \<Longrightarrow> classify_license_type gs d t = d"
  by (induction gs) auto

text \<open>
  C7, as the spec states it, fails in Michigan: a record type with a cultivation keyword
  and a retail keyword is classified as retail, since michigan.py tests its retail
  keywords first.
\<close>

theorem michigan_retail_before_cultivation_counterexample:
  "contains ''cultivation'' (lower ''Cultivation Retail'') \<and>
   contains ''retail'' (lower ''Cultivation Retail'') \<and>
   determine_license_type_michigan (Some ''Cultivation Retail'') = ''retail'' \<and>
   determine_license_type_michigan (Some ''Cultivation Retail'') \<noteq> ''cultivation''"
  by (simp add: determine_license_type_michigan_def falsy_def or_empty_def lower_def
      lower_char_def)

text \<open>
  C7, amended. Each jurisdiction's classifier evaluates its own keyword groups in a fixed
  order and returns the category of the first group with a keyword in the lower-cased
  text, and its default when the text is empty or no keyword matches: other in Alberta,
  Colorado and Michigan, retail in British Columbia, Ontario and Saskatchewan. The
  cultivation group is the first group and the retail group the second in Alberta and
  Colorado; in Michigan the retail group is the first and the cultivation group the third;
  British Columbia and Ontario have no retail group, retail being their default.
\<close>

theorem determine_license_type_first_match:
  "determine_license_type_alberta x =
     (if falsy x then ''other''
      else classify_license_type alberta_groups ''other'' (lower (or_empty x))) \<and>
   determine_license_type_bc x =
     (if falsy x then ''retail''
      else classify_license_type bc_groups ''retail'' (lower (or_empty x))) \<and>
   determine_license_type_colorado x y =
     classify_license_type colorado_groups ''other'' (lower (or_empty x @ '' '' @ or_empty y)) \<and>
   determine_license_type_michigan x =
     (if falsy x then ''other''
      else classify_license_type michigan_groups ''other'' (lower (or_empty x))) \<and>
   determine_license_type_ontario x =
     (if falsy x then ''retail''
      else classify_license_type ontario_groups ''retail'' (lower (or_empty x))) \<and>
   determine_license_type_from_name x =
     (if falsy x then ''retail''
      else classify_license_type saskatchewan_groups ''retail'' (lower (or_empty x))) \<and>
   group_index ''cultivation'' alberta_groups = Some 0 \<and>
   group_index ''retail'' alberta_groups = Some 1 \<and>
   group_index ''cultivation'' colorado_groups = Some 0 \<and>
   group_index ''retail'' colorado_groups = Some 1 \<and>
   group_index ''retail'' michigan_groups = Some 0 \<and>
   group_index ''cultivation'' michigan_groups = Some 2 \<and>
   group_index ''retail'' bc_groups = None \<and>
   group_index ''retail'' ontario_groups = None"
proof -
  have a: "determine_license_type_alberta x =
     (if falsy x then ''other''
      else classify_license_type alberta_groups ''other'' (lower (or_empty x)))"
    by (simp add: determine_license_type_alberta_def alberta_groups_def Let_def)
  have b: "determine_license_type_bc x =
     (if falsy x then ''retail''
      else classify_license_type bc_groups ''retail'' (lower (or_empty x)))"
    by (simp add: determine_license_type_bc_def bc_groups_def Let_def)
  have c: "determine_license_type_colorado x y =
     classify_license_type colorado_groups ''other'' (lower (or_empty x @ '' '' @ or_empty y))"
    by (simp add: determine_license_type_colorado_def colorado_groups_def Let_def
        any_in_two any_in_one)
  have m: "determine_license_type_michigan x =
     (if falsy x then ''other''
      else classify_license_type michigan_groups ''other'' (lower (or_empty x)))"
    by (simp add: determine_license_type_michigan_def michigan_groups_def Let_def
        any_in_two any_in_one)
  have on: "determine_license_type_ontario x =
     (if falsy x then ''retail''
      else classify_license_type ontario_groups ''retail'' (lower (or_empty x)))"
    by (simp add: determine_license_type_ontario_def ontario_groups_def Let_def)
  have s: "determine_license_type_from_name x =
     (if falsy x then ''retail''
      else classify_license_type saskatchewan_groups ''retail'' (lower (or_empty x)))"
    by (simp add: determine_license_type_from_name_def saskatchewan_groups_def Let_def
        any_in_one)
  have g: "group_index ''cultivation'' alberta_groups = Some 0"
    "group_index ''retail'' alberta_groups = Some 1"
    "group_index ''cultivation'' colorado_groups = Some 0"
    "group_index ''retail'' colorado_groups = Some 1"
    "group_index ''retail'' michigan_groups = Some 0"
    "group_index ''cultivation'' michigan_groups = Some 2"
    "group_index ''retail'' bc_groups = None"
    "group_index ''retail'' ontario_groups = None"
    by (simp_all add: alberta_groups_def colorado_groups_def michigan_groups_def
        bc_groups_def ontario_groups_def)
  from a b c m on s g show ?thesis by blast
qed

theorem determine_license_type_first_match_witness:
  "determine_license_type_alberta (Some ''Green Farm Store'') = ''cultivation'' \<and>
   determine_license_type_bc (Some ''Green Farm Store'') = ''cultivation'' \<and>
   determine_license_type_colorado (Some ''Green Farm Store'') None = ''retail'' \<and>
   determine_license_type_michigan (Some ''Green Farm Store'') = ''other'' \<and>
   determine_license_type_ontario (Some ''Green Farm Store'') = ''cultivation'' \<and>
   determine_license_type_from_name (Some ''Green Farm Store'') = ''retail''"
  using determine_license_type_first_match [of "Some ''Green Farm Store''" None]
  by (simp add: falsy_def or_empty_def lower_def lower_char_def any_in_def
      alberta_groups_def bc_groups_def colorado_groups_def michigan_groups_def
      ontario_groups_def saskatchewan_groups_def)

subsection \<open>Postal codes\<close>

lemma match_tail_Some:
  "match_tail t = Some m \<Longrightarrow>
   \<exists>d e f rest. t = d # e # f # rest \<and> m = [d, e, f] \<and> is_digit d \<and> is_alpha e \<and> is_digit f"
  by (induction t rule: match_tail.induct) (auto split: if_splits)

lemma match_postal_shape:
  "match_postal s = Some m \<Longrightarrow> postal_shape m \<and> take (length m) s = m"
  by (induction s rule: match_postal.induct)
     (auto split: if_splits option.splits list.splits dest!: match_tail_Some)

lemma contains_prefix: "take (length w) s = w \<Longrightarrow> contains w s"
  by (cases s) auto

lemma contains_Cons: "contains w cs \<Longrightarrow> contains w (c # cs)"
  by simp

lemma search_postal_Some:
  "search_postal s = Some m \<Longrightarrow> postal_shape m \<and> contains m s"
proof (induction s)
  case Nil
  then show ?case by simp
next
  case (Cons c cs)
  show ?case
  proof (cases "match_postal (c # cs)")
    case None
    with Cons show ?thesis by simp
  next
    case (Some m')
    with Cons.prems have "m' = m" by simp
    with Some match_postal_shape [of "c # cs" m] show ?thesis
      using contains_prefix by blast
  qed
qed

lemma digit_not_space: "is_digit c \<Longrightarrow> \<not> is_space c"
  by (auto simp: is_digit_def is_space_def)

lemma postal_shape_cases:
  assumes "postal_shape m"
  obtains a b c d e f where "m = [a, b, c, d, e, f]"
      "is_alpha a" "is_digit b" "is_alpha c" "is_digit d" "is_alpha e" "is_digit f"
  | a b c w d e f where "m = [a, b, c, w, d, e, f]"
      "is_alpha a" "is_digit b" "is_alpha c" "is_space w" "is_digit d" "is_alpha e" "is_digit f"
  using assms by (induction m rule: postal_shape.induct) auto

lemma match_postal_complete:
  assumes "postal_shape m" "take (length m) s = m"
  shows "match_postal s \<noteq> None"
  using assms(1)
proof (cases rule: postal_shape_cases)
  case (1 a b c d e f)
  with assms(2) obtain rest where "s = a # b # c # d # e # f # rest"
    by (metis append_take_drop_id append_Cons append_Nil)
  with 1 show ?thesis by (simp add: digit_not_space)
next
  case (2 a b c w d e f)
  with assms(2) obtain rest where "s = a # b # c # w # d # e # f # rest"
    by (metis append_take_drop_id append_Cons append_Nil)
  with 2 show ?thesis by simp
qed

lemma search_postal_complete:
  "postal_shape m \<Longrightarrow> contains m s \<Longrightarrow> search_postal s \<noteq> None"
proof (induction s)
  case Nil
  then show ?case by (cases m rule: postal_shape.cases) auto
next
  case (Cons c cs)
  then show ?case
    using match_postal_complete [of m "c # cs"] by (auto split: option.splits)
qed

text \<open>
  C8, as the spec states it, fails: the match is returned upper-cased as it stands in the
  address, so a code written without a space comes back without one.
\<close>

theorem extract_postal_code_spacing_counterexample:
  "extract_postal_code_alberta (RStr ''Calgary t2p1j9'') RNone = Some ''T2P1J9'' \<and>
   canonical_spacing ''T2P1J9'' = ''T2P 1J9'' \<and>
   extract_postal_code_alberta (RStr ''Calgary t2p1j9'') RNone \<noteq>
     Some (canonical_spacing ''T2P1J9'')"
  by (simp add: extract_postal_code_alberta_def is_alpha_def is_digit_def is_space_def
      upper_def upper_char_def canonical_spacing_def)

text \<open>
  C8, amended. Alberta's \<^verbatim>\<open>extract_postal_code\<close> returns the explicit field, trimmed, when
  that is non-empty. Otherwise it searches the address for letter, digit, letter, an
  optional white-space character, digit, letter, digit, in either case of the letters, and
  returns the matched text upper-cased and otherwise unchanged (so with the separator
  the address has, or none); it is absent exactly when the address is empty or has no
  such piece. The address of the spec gives \<open>T2P 1J9\<close>. The canonical spacing is the work
  of British Columbia's variant, which reads the explicit field only: a trimmed value of
  six characters is upper-cased and split three and three by a space.
\<close>

theorem extract_postal_code_match:
  "(truthy site_postal \<and> strip (py_str site_postal) \<noteq> [] \<longrightarrow>
      extract_postal_code_alberta address site_postal = Some (strip (py_str site_postal))) \<and>
   (\<not> (truthy site_postal \<and> strip (py_str site_postal) \<noteq> []) \<longrightarrow>
      (extract_postal_code_alberta address site_postal = None \<longleftrightarrow>
         \<not> truthy address \<or> (\<forall>m. postal_shape m \<longrightarrow> \<not> contains m (py_str address))) \<and>
      (\<forall>p. extract_postal_code_alberta address site_postal = Some p \<longrightarrow>
         (\<exists>m. postal_shape m \<and> contains m (py_str address) \<and> p = upper m))) \<and>
   extract_postal_code_alberta (RStr ''123 Main St, Calgary T2P 1J9'') RNone = Some ''T2P 1J9'' \<and>
   (truthy v \<and> \<not> pd_isna v \<and> length (strip (py_str v)) = 6 \<longrightarrow>
      extract_postal_code_bc v = Some (canonical_spacing (upper (strip (py_str v)))))"
proof -
  have explicit: "truthy site_postal \<and> strip (py_str site_postal) \<noteq> [] \<longrightarrow>
      extract_postal_code_alberta address site_postal = Some (strip (py_str site_postal))"
    by (simp add: extract_postal_code_alberta_def)
  have absent: "extract_postal_code_alberta address site_postal = None \<longleftrightarrow>
         \<not> truthy address \<or> (\<forall>m. postal_shape m \<longrightarrow> \<not> contains m (py_str address))"
    if "\<not> (truthy site_postal \<and> strip (py_str site_postal) \<noteq> [])"
  proof (cases "search_postal (py_str address)")
    case None
    then have "\<forall>m. postal_shape m \<longrightarrow> \<not> contains m (py_str address)"
      using search_postal_complete by blast
    with None that show ?thesis by (auto simp: extract_postal_code_alberta_def)
  next
    case (Some m)
    then have "postal_shape m \<and> contains m (py_str address)"
      by (rule search_postal_Some)
    with Some that show ?thesis by (auto simp: extract_postal_code_alberta_def)
  qed
  have found: "\<exists>m. postal_shape m \<and> contains m (py_str address) \<and> p = upper m"
    if "\<not> (truthy site_postal \<and> strip (py_str site_postal) \<noteq> [])"
      and "extract_postal_code_alberta address site_postal = Some p" for p
  proof -
    from that obtain m where m: "search_postal (py_str address) = Some m" "p = upper m"
      by (auto simp: extract_postal_code_alberta_def split: if_splits option.splits)
    from search_postal_Some [OF m(1)] m(2) show ?thesis by blast
  qed
  have example:
    "extract_postal_code_alberta (RStr ''123 Main St, Calgary T2P 1J9'') RNone = Some ''T2P 1J9''"
    by (simp add: extract_postal_code_alberta_def is_alpha_def is_digit_def is_space_def
        upper_def upper_char_def)
  have bc: "truthy v \<and> \<not> pd_isna v \<and> length (strip (py_str v)) = 6 \<longrightarrow>
      extract_postal_code_bc v = Some (canonical_spacing (upper (strip (py_str v))))"
    by (simp add: extract_postal_code_bc_def canonical_spacing_def upper_def Let_def)
  from explicit absent found example bc show ?thesis by blast
qed

theorem extract_postal_code_match_witness:
  "extract_postal_code_alberta (RStr ''9 Elm St t2p1j9'') (RStr '' T5K 2B6 '') = Some ''T5K 2B6'' \<and>
   extract_postal_code_alberta (RStr ''Main St'') RNone = None \<and>
   extract_postal_code_bc (RStr '' v6b1a1 '') = Some ''V6B 1A1''"
proof -
  have none: "(\<forall>m. postal_shape m \<longrightarrow> \<not> contains m ''Main St'')"
  proof (intro allI impI)
    fix m assume "postal_shape m"
    then have "search_postal ''Main St'' \<noteq> None" if "contains m ''Main St''"
      using that search_postal_complete by blast
    then show "\<not> contains m ''Main St''"
      by (auto simp: is_alpha_def is_digit_def is_space_def)
  qed
  show ?thesis
    using extract_postal_code_match [of "RStr '' T5K 2B6 ''" "RStr ''9 Elm St t2p1j9''"
        "RStr '' v6b1a1 ''"]
      extract_postal_code_match [of RNone "RStr ''Main St''" RNone] none
    by (simp add: strip_def is_space_def canonical_spacing_def upper_def upper_char_def)
qed

subsection \<open>The pages of the Jamaican registry\<close>

lemma scraped_pages_append: "scraped_pages (a @ b) = scraped_pages a @ scraped_pages b"
  by (induction a rule: scraped_pages.induct) auto

lemma upt_step: "n \<le> k \<Longrightarrow> n # [Suc n..<Suc k] = [n..<Suc k]"
  by (simp add: upt_conv_Cons)

lemma scrape_pages_run:
  "n \<le> 50 \<Longrightarrow> scrape_pages lib web n acc out = (ls, out') \<Longrightarrow>
   \<exists>k. n \<le> k \<and> k \<le> 50 \<and>
       scraped_pages out' = scraped_pages out @ [n..<Suc k] \<and>
       (\<forall>i. n \<le> i \<and> i < k \<longrightarrow> page_continues lib web i) \<and>
       (k < 50 \<longrightarrow> \<not> page_continues lib web k) \<and>
       last out' = stop_message lib web k \<and>
       ls = acc @ concat (map (page_licenses lib web) [n..<Suc k])"
proof (induction lib web n acc out arbitrary: ls out' rule: scrape_pages.induct)
  case (1 lib web page_num all_licenses out)
  show ?case
  proof (cases "page_continues lib web page_num \<and> page_num < 50")
    case False
    then have stop: "page_num < 50 \<longrightarrow> \<not> page_continues lib web page_num" by blast
    from False "1.prems" have "scraped_pages out' = scraped_pages out @ [page_num]
        \<and> last out' = stop_message lib web page_num
        \<and> ls = all_licenses @ page_licenses lib web page_num"
      by (subst (asm) scrape_pages.simps)
         (auto simp: page_continues_def stop_message_def page_licenses_def Let_def
            scraped_pages_append split: option.splits if_splits)
    with stop "1.prems"(1) show ?thesis
      by (intro exI [of _ page_num]) auto
  next
    case True
    then obtain soup where soup: "web page_num = Some soup"
        "scrape_table_data_jamaica lib soup \<noteq> []" "next_link soup"
      by (auto simp: page_continues_def split: option.splits)
    from True have lt: "page_num < 50" by simp
    let ?acc = "all_licenses @ scrape_table_data_jamaica lib soup"
    let ?out = "(out @ [Scraping page_num]) @
        [Found (length (scrape_table_data_jamaica lib soup)) page_num]"
    from "1.prems"(2) soup lt
    have rec: "scrape_pages lib web (page_num + 1) ?acc ?out = (ls, out')"
      by (subst (asm) scrape_pages.simps) (simp add: Let_def)
    from lt have le: "page_num + 1 \<le> 50" by simp
    have "\<exists>k. page_num + 1 \<le> k \<and> k \<le> 50 \<and>
       scraped_pages out' = scraped_pages ?out @ [page_num + 1..<Suc k] \<and>
       (\<forall>i. page_num + 1 \<le> i \<and> i < k \<longrightarrow> page_continues lib web i) \<and>
       (k < 50 \<longrightarrow> \<not> page_continues lib web k) \<and>
       last out' = stop_message lib web k \<and>
       ls = ?acc @ concat (map (page_licenses lib web) [page_num + 1..<Suc k])"
      using soup lt by (intro "1.IH" [OF refl soup(1) refl _ refl refl _ _ le rec]) auto
    then obtain k where k: "page_num + 1 \<le> k" "k \<le> 50"
       "scraped_pages out' = scraped_pages ?out @ [page_num + 1..<Suc k]"
       "\<forall>i. page_num + 1 \<le> i \<and> i < k \<longrightarrow> page_continues lib web i"
       "k < 50 \<longrightarrow> \<not> page_continues lib web k"
       "last out' = stop_message lib web k"
       "ls = ?acc @ concat (map (page_licenses lib web) [page_num + 1..<Suc k])"
      by blast
    from k(1) have pk: "page_num \<le> k" by simp
    have a: "scraped_pages out' = scraped_pages out @ [page_num..<Suc k]"
      using k(3) upt_step [OF pk] by (simp add: scraped_pages_append)
    have b: "\<forall>i. page_num \<le> i \<and> i < k \<longrightarrow> page_continues lib web i"
    proof (intro allI impI)
      fix i assume i: "page_num \<le> i \<and> i < k"
      show "page_continues lib web i"
      proof (cases "i = page_num")
        case True with \<open>page_continues lib web page_num \<and> page_num < 50\<close> show ?thesis by simp
      next
        case False with i k(4) show ?thesis by simp
      qed
    qed
    have c: "ls = all_licenses @ concat (map (page_licenses lib web) [page_num..<Suc k])"
      using k(7) upt_step [OF pk, symmetric] soup(1) by (simp add: page_licenses_def)
    from pk k(2) a b k(5) k(6) c show ?thesis by blast
  qed
qed

text \<open>
  C9. \<^verbatim>\<open>scrape_all_pages\<close> terminates (its definition carries the termination proof:
  the page number grows and the loop is left when it passes 50). It asks for the pages
  1 to \<open>k\<close> for some \<open>k\<close> of at most 50, going on after a page only when that page was
  fetched, yielded licenses and has a next link; it stops at the first page that fails
  to be fetched, yields no license or has no next link, and otherwise after page 50 with
  the message that the limit is reached. The result is the licenses of the pages read.
\<close>

theorem scrape_all_pages_at_most_50:
  "\<exists>k. 1 \<le> k \<and> k \<le> 50 \<and>
       scraped_pages (snd (scrape_all_pages lib web)) = [1..<Suc k] \<and>
       (\<forall>i. 1 \<le> i \<and> i < k \<longrightarrow> page_continues lib web i) \<and>
       (k < 50 \<longrightarrow> \<not> page_continues lib web k) \<and>
       last (snd (scrape_all_pages lib web)) = stop_message lib web k \<and>
       fst (scrape_all_pages lib web) = concat (map (page_licenses lib web) [1..<Suc k])"
proof -
  obtain ls out' where run: "scrape_pages lib web 1 [] [] = (ls, out')"
    by (cases "scrape_pages lib web 1 [] []") auto
  have "(1::nat) \<le> 50" by simp
  from scrape_pages_run [OF this run] run show ?thesis
    by (simp add: scrape_all_pages_def)
qed

theorem scrape_all_pages_at_most_50_witness:
  "scraped_pages (snd (scrape_all_pages test_lib endless_web)) = [1..<51] \<and>
   last (snd (scrape_all_pages test_lib endless_web)) = ReachedLimit \<and>
   scraped_pages (snd (scrape_all_pages test_lib (\<lambda>n. None))) = [1] \<and>
   last (snd (scrape_all_pages test_lib (\<lambda>n. None))) = FailedToFetch 1"
proof -
  have go: "page_continues test_lib endless_web i" for i
    by (simp add: page_continues_def endless_web_def scrape_table_data_jamaica_def)
  obtain k where k: "1 \<le> k" "k \<le> 50"
      "scraped_pages (snd (scrape_all_pages test_lib endless_web)) = [1..<Suc k]"
      "k < 50 \<longrightarrow> \<not> page_continues test_lib endless_web k"
      "last (snd (scrape_all_pages test_lib endless_web)) = stop_message test_lib endless_web k"
    using scrape_all_pages_at_most_50 [of test_lib endless_web] by blast
  from k(2,4) go have "k = 50" by auto
  with k(3,5) have a: "scraped_pages (snd (scrape_all_pages test_lib endless_web)) = [1..<51]"
      "last (snd (scrape_all_pages test_lib endless_web)) = ReachedLimit"
    by (simp_all add: stop_message_def endless_web_def scrape_table_data_jamaica_def)
  have stop: "\<not> page_continues test_lib (\<lambda>n. None) i" for i
    by (simp add: page_continues_def)
  obtain j where j: "1 \<le> j"
      "scraped_pages (snd (scrape_all_pages test_lib (\<lambda>n. None))) = [1..<Suc j]"
      "\<forall>i. 1 \<le> i \<and> i < j \<longrightarrow> page_continues test_lib (\<lambda>n. None) i"
      "last (snd (scrape_all_pages test_lib (\<lambda>n. None))) = stop_message test_lib (\<lambda>n. None) j"
    using scrape_all_pages_at_most_50 [of test_lib "\<lambda>n. None"] by blast
  from j(1,3) stop have "j = 1" by (metis le_neq_implies_less order_refl)
  with j(2,4) have b: "scraped_pages (snd (scrape_all_pages test_lib (\<lambda>n. None))) = [1]"
      "last (snd (scrape_all_pages test_lib (\<lambda>n. None))) = FailedToFetch 1"
    by (simp_all add: stop_message_def)
  from a b show ?thesis by blast
qed

subsection \<open>Coordinates of the Ontario feed\<close>

lemma extract_lon_lat_cases:
  assumes "extract_lon_lat lib lon lat = Inr cs"
  shows "(\<forall>x y. truthy lon \<and> truthy lat \<and> py_float lib lon = Inr x \<and> py_float lib lat = Inr y
            \<longrightarrow> cs = [x, y]) \<and>
         (\<not> (truthy lon \<and> truthy lat \<and> (\<exists>x. py_float lib lon = Inr x) \<and>
              (\<exists>y. py_float lib lat = Inr y)) \<longrightarrow> cs = [])"
  using assms
  by (auto simp: extract_lon_lat_def split: if_splits sum.splits)

lemma transform_attributes_ontario_coordinates:
  assumes "transform_attributes_ontario lib attributes = Inr document"
  shows "\<exists>cs. extract_lon_lat lib (row_get attributes ''Longitude'') (row_get attributes ''Latitude'') = Inr cs \<and>
           map_of document ''gps_validation'' = Some (VBool (cs \<noteq> [])) \<and>
           map_of document ''location'' =
             Some (VDict [(''type'', VStr ''Point''), (''coordinates'', VList (map VFloat cs))])"
proof (cases "extract_lon_lat lib (row_get attributes ''Longitude'') (row_get attributes ''Latitude'')")
  case (Inl e)
  with assms show ?thesis by (simp add: transform_attributes_ontario_def Let_def)
next
  case (Inr cs)
  with assms show ?thesis
    unfolding transform_attributes_ontario_def Let_def
    by (intro exI [of _ cs]) auto
qed

lemma transform_attributes_ontario_returns:
  "extract_lon_lat lib (row_get attributes ''Longitude'') (row_get attributes ''Latitude'') = Inr cs \<Longrightarrow>
   \<exists>document. transform_attributes_ontario lib attributes = Inr document"
  by (simp add: transform_attributes_ontario_def Let_def)

text \<open>
  C10. In every document the Ontario transform returns, \<open>gps_validation\<close> is true exactly
  when \<open>location.coordinates\<close> is not empty. The coordinates are the pair (longitude,
  latitude) of floats when the attributes Longitude and Latitude are both true values that
  \<^verbatim>\<open>float\<close> converts; in every other case they are the empty list and
  \<open>gps_validation\<close> is false.
\<close>

theorem ontario_gps_validation:
  assumes "transform_record_to_schema lib record = Inr document"
  shows "\<exists>cs. map_of document ''gps_validation'' = Some (VBool (cs \<noteq> [])) \<and>
           map_of document ''location'' =
             Some (VDict [(''type'', VStr ''Point''), (''coordinates'', VList (map VFloat cs))]) \<and>
           (\<forall>x y. truthy (row_get (feature_attributes record) ''Longitude'') \<and>
                  truthy (row_get (feature_attributes record) ''Latitude'') \<and>
                  py_float lib (row_get (feature_attributes record) ''Longitude'') = Inr x \<and>
                  py_float lib (row_get (feature_attributes record) ''Latitude'') = Inr y
              \<longrightarrow> cs = [x, y]) \<and>
           (\<not> (truthy (row_get (feature_attributes record) ''Longitude'') \<and>
                truthy (row_get (feature_attributes record) ''Latitude'') \<and>
                (\<exists>x. py_float lib (row_get (feature_attributes record) ''Longitude'') = Inr x) \<and>
                (\<exists>y. py_float lib (row_get (feature_attributes record) ''Latitude'') = Inr y))
              \<longrightarrow> cs = [])"
proof -
  from assms have "transform_attributes_ontario lib (feature_attributes record) = Inr document"
    by (cases "record") auto
  from transform_attributes_ontario_coordinates [OF this]
  obtain cs where cs:
      "extract_lon_lat lib (row_get (feature_attributes record) ''Longitude'')
         (row_get (feature_attributes record) ''Latitude'') = Inr cs"
      "map_of document ''gps_validation'' = Some (VBool (cs \<noteq> []))"
      "map_of document ''location'' =
         Some (VDict [(''type'', VStr ''Point''), (''coordinates'', VList (map VFloat cs))])"
    by blast
  from extract_lon_lat_cases [OF cs(1)] cs(2,3) show ?thesis by blast
qed

lemma toronto_lon_lat:
  "row_get (feature_attributes toronto_shop) ''Longitude'' = RStr ''79''"
  "row_get (feature_attributes toronto_shop) ''Latitude'' = RStr ''43''"
  by (simp_all add: toronto_shop_def row_get_def)

lemma equator_lon_lat:
  "row_get (feature_attributes equator_shop) ''Longitude'' = RStr ''79''"
  "row_get (feature_attributes equator_shop) ''Latitude'' = RObj False ''0''"
  by (simp_all add: equator_shop_def row_get_def)

lemma read_float_79_43:
  "py_float test_lib (RStr ''79'') = Inr 79" "py_float test_lib (RStr ''43'') = Inr 43"
  by (simp_all add: test_lib_def read_float_def is_digit_def nat_of_digits_def digit_val_def)

theorem ontario_gps_validation_witness:
  "(\<exists>document. transform_record_to_schema test_lib toronto_shop = Inr document \<and>
      map_of document ''gps_validation'' = Some (VBool True) \<and>
      map_of document ''location'' =
        Some (VDict [(''type'', VStr ''Point''), (''coordinates'', VList [VFloat 79, VFloat 43])])) \<and>
   (\<exists>document. transform_record_to_schema test_lib equator_shop = Inr document \<and>
      map_of document ''gps_validation'' = Some (VBool False) \<and>
      map_of document ''location'' =
        Some (VDict [(''type'', VStr ''Point''), (''coordinates'', VList [])]))"
proof -
  have "extract_lon_lat test_lib (row_get (feature_attributes toronto_shop) ''Longitude'')
          (row_get (feature_attributes toronto_shop) ''Latitude'') = Inr [79, 43]"
    by (simp add: toronto_lon_lat extract_lon_lat_def read_float_79_43)
  from transform_attributes_ontario_returns [OF this]
  obtain d1 where "transform_attributes_ontario test_lib (feature_attributes toronto_shop) = Inr d1"
    by blast
  then have d1: "transform_record_to_schema test_lib toronto_shop = Inr d1"
    by (simp add: toronto_shop_def)
  have "extract_lon_lat test_lib (row_get (feature_attributes equator_shop) ''Longitude'')
          (row_get (feature_attributes equator_shop) ''Latitude'') = Inr []"
    by (simp add: equator_lon_lat extract_lon_lat_def)
  from transform_attributes_ontario_returns [OF this]
  obtain d2 where "transform_attributes_ontario test_lib (feature_attributes equator_shop) = Inr d2"
    by blast
  then have d2: "transform_record_to_schema test_lib equator_shop = Inr d2"
    by (simp add: equator_shop_def)
  from ontario_gps_validation [OF d1] have
    "map_of d1 ''gps_validation'' = Some (VBool True) \<and>
     map_of d1 ''location'' =
        Some (VDict [(''type'', VStr ''Point''), (''coordinates'', VList [VFloat 79, VFloat 43])])"
    by (auto simp: toronto_lon_lat read_float_79_43)
  moreover from ontario_gps_validation [OF d2] have
    "map_of d2 ''gps_validation'' = Some (VBool False) \<and>
     map_of d2 ''location'' =
        Some (VDict [(''type'', VStr ''Point''), (''coordinates'', VList [])])"
    by (auto simp: equator_lon_lat)
  ultimately show ?thesis using d1 d2 by blast
qed

subsection \<open>Dates and the clock\<close>



lemma isoformat_2025_01_12: "isoformat_ymd (2025, 1, 12) = ''2025-01-12T00:00:00''"
  by (simp add: isoformat_ymd_def pad4_def pad2_def digit_char_def)



lemma parse_date_federal_no_such_day: "parse_date_federal ''2025-02-30'' = None"
  by (simp add: parse_date_federal_def lower_def lower_char_def re_match_ymd_def strptime_ymd_def
      is_digit_def nat_of_digits_def digit_val_def days_in_month_def is_leap_def)















subsection \<open>Structural completeness\<close>





























subsection \<open>The drivers\<close>

lemma successes_simps:
  "successes tr [] = []"
  "successes tr (r # rs) = (case tr r of Inr d \<Rightarrow> [d] | Inl e \<Rightarrow> []) @ successes tr rs"
  by (simp_all add: successes_def)

lemma alberta_gate: "scrape_rows_alberta lib rows = successes (transform_row_to_schema_alberta lib) rows"
  by (induction rows) (auto simp: successes_simps split: sum.splits)

lemma bc_gate: "scrape_rows_bc rows = successes transform_row_to_schema_bc rows"
  by (induction rows) (auto simp: successes_simps split: sum.splits)

lemma saskatchewan_gate:
  "scrape_rows_saskatchewan lib rows = successes (transform_row_to_schema_saskatchewan lib) rows"
  by (induction rows) (auto simp: successes_simps split: sum.splits)

lemma colorado_gate:
  "scrape_rows_colorado lib now rows =
     filter (\<lambda>d. doc_truthy d ''business_name'' \<and> doc_truthy d ''license_number'')
       (successes (transform_row_to_schema_colorado lib now) rows)"
  by (induction rows) (auto simp: successes_simps split: sum.splits)

lemma michigan_gate:
  "process_rows_michigan lib rows =
     filter (\<lambda>d. doc_truthy d ''business_name'' \<and> doc_truthy d ''license_number'')
       (successes (transform_row_to_schema_michigan lib) rows)"
  by (induction rows) (auto simp: successes_simps split: sum.splits)

lemma ontario_gate:
  "scrape_records_ontario lib records =
     filter (\<lambda>d. doc_truthy d ''business_name'')
       (successes (transform_record_to_schema lib) records)"
  by (induction records) (auto simp: successes_simps split: sum.splits)

lemma federal_gate:
  "scrape_rows_federal table = map row_document_federal (filter (\<lambda>cells. 4 \<le> length cells) table)"
  by (induction table) auto

lemma jamaica_gate:
  "scrape_rows_jamaica lib table =
     map (row_document_jamaica lib) (filter (\<lambda>cells. 4 \<le> length cells) table)"
  by (induction table) auto




lemma val_truthy_opt_str: "val_truthy (opt_str x) = str_truthy x"
  by (cases x) (simp_all add: opt_str_def str_truthy_def)

lemma colorado_gate_fields:
  "transform_row_to_schema_colorado lib now r = Inr d \<Longrightarrow>
   doc_truthy d ''business_name'' =
     str_truthy (opt_or (clean_string_colorado (row_get r ''Facility Name''))
                        (clean_string_colorado (row_get r ''DBA''))) \<and>
   doc_truthy d ''license_number'' = str_truthy (clean_string_colorado (row_get r ''License Number''))"
  by (clarsimp simp: transform_row_to_schema_colorado_def Let_def doc_truthy_def
      val_truthy_opt_str)

lemma michigan_gate_fields:
  "transform_row_to_schema_michigan lib r = Inr d \<Longrightarrow>
   doc_truthy d ''business_name'' =
     str_truthy (clean_string_michigan (py_or (row_get r ''License Name'') (row_get r ''LicenseName''))) \<and>
   doc_truthy d ''license_number'' =
     str_truthy (clean_string_michigan (py_or (row_get r ''Record Number'') (row_get r ''RecordNumber'')))"
  by (clarsimp simp: transform_row_to_schema_michigan_def Let_def doc_truthy_def
      val_truthy_opt_str)

lemma ontario_attributes_gate_fields:
  "transform_attributes_ontario lib a = Inr d \<Longrightarrow>
   doc_truthy d ''business_name'' = str_truthy (clean_string_ontario (row_get a ''PremisesName''))"
  by (cases "extract_lon_lat lib (row_get a ''Longitude'') (row_get a ''Latitude'')")
     (auto simp: transform_attributes_ontario_def Let_def doc_truthy_def val_truthy_opt_str)

lemma ontario_gate_fields:
  "transform_record_to_schema lib f = Inr d \<Longrightarrow>
   doc_truthy d ''business_name'' =
     str_truthy (clean_string_ontario (row_get (feature_attributes f) ''PremisesName''))"
  by (cases f) (auto dest: ontario_attributes_gate_fields)

text \<open>
  C1, as the spec states it, fails in Alberta: the row with every field absent is
  transformed into a document without a business name, and the batch consists of that
  document.
\<close>

theorem alberta_no_gate_counterexample:
  "doc_field (transform_row_to_schema_alberta test_lib Map.empty) ''business_name'' = Some VNone \<and>
   map Inr (scrape_all_data_alberta test_lib (Some [Map.empty])) =
     [transform_row_to_schema_alberta test_lib Map.empty]"
  by (simp add: scrape_all_data_alberta_def transform_row_to_schema_alberta_def Let_def
      doc_field_def row_get_def clean_string_alberta_def opt_str_def)

text \<open>
  C1, amended. The batch of a driver is the list of the documents of the records whose
  transform returned, in order, filtered by the check of that driver. Colorado and
  Michigan keep a document when both \<open>business_name\<close> and \<open>license_number\<close> are true values
  (neither \<^verbatim>\<open>None\<close> nor empty), Ontario when \<open>business_name\<close> is; Alberta, British Columbia
  and Saskatchewan keep every document; the table readers of the federal registry and of
  Jamaica build a document for every row of at least four cells. The checked fields are
  the cleaned cells of the record.
\<close>

theorem completeness_gates:
  "scrape_rows_colorado lib now rows =
     filter (\<lambda>d. doc_truthy d ''business_name'' \<and> doc_truthy d ''license_number'')
       (successes (transform_row_to_schema_colorado lib now) rows) \<and>
   process_rows_michigan lib rows =
     filter (\<lambda>d. doc_truthy d ''business_name'' \<and> doc_truthy d ''license_number'')
       (successes (transform_row_to_schema_michigan lib) rows) \<and>
   scrape_records_ontario lib records =
     filter (\<lambda>d. doc_truthy d ''business_name'')
       (successes (transform_record_to_schema lib) records) \<and>
   scrape_rows_alberta lib rows = successes (transform_row_to_schema_alberta lib) rows \<and>
   scrape_rows_bc rows = successes transform_row_to_schema_bc rows \<and>
   scrape_rows_saskatchewan lib rows = successes (transform_row_to_schema_saskatchewan lib) rows \<and>
   scrape_rows_federal table =
     map row_document_federal (filter (\<lambda>cells. 4 \<le> length cells) table) \<and>
   scrape_rows_jamaica lib table =
     map (row_document_jamaica lib) (filter (\<lambda>cells. 4 \<le> length cells) table) \<and>
   (transform_row_to_schema_colorado lib now r = Inr d \<longrightarrow>
      doc_truthy d ''business_name'' =
        str_truthy (opt_or (clean_string_colorado (row_get r ''Facility Name''))
                           (clean_string_colorado (row_get r ''DBA''))) \<and>
      doc_truthy d ''license_number'' =
        str_truthy (clean_string_colorado (row_get r ''License Number''))) \<and>
   (transform_row_to_schema_michigan lib r = Inr d \<longrightarrow>
      doc_truthy d ''business_name'' =
        str_truthy (clean_string_michigan
          (py_or (row_get r ''License Name'') (row_get r ''LicenseName''))) \<and>
      doc_truthy d ''license_number'' =
        str_truthy (clean_string_michigan
          (py_or (row_get r ''Record Number'') (row_get r ''RecordNumber'')))) \<and>
   (transform_record_to_schema lib f = Inr d \<longrightarrow>
      doc_truthy d ''business_name'' =
        str_truthy (clean_string_ontario (row_get (feature_attributes f) ''PremisesName'')))"
proof -
  have g: "transform_row_to_schema_colorado lib now r = Inr d \<longrightarrow>
      doc_truthy d ''business_name'' =
        str_truthy (opt_or (clean_string_colorado (row_get r ''Facility Name''))
                           (clean_string_colorado (row_get r ''DBA''))) \<and>
      doc_truthy d ''license_number'' =
        str_truthy (clean_string_colorado (row_get r ''License Number''))"
    "transform_row_to_schema_michigan lib r = Inr d \<longrightarrow>
      doc_truthy d ''business_name'' =
        str_truthy (clean_string_michigan
          (py_or (row_get r ''License Name'') (row_get r ''LicenseName''))) \<and>
      doc_truthy d ''license_number'' =
        str_truthy (clean_string_michigan
          (py_or (row_get r ''Record Number'') (row_get r ''RecordNumber'')))"
    "transform_record_to_schema lib f = Inr d \<longrightarrow>
      doc_truthy d ''business_name'' =
        str_truthy (clean_string_ontario (row_get (feature_attributes f) ''PremisesName''))"
    using colorado_gate_fields [of lib now r d] michigan_gate_fields [of lib r d]
      ontario_gate_fields [of lib f d] by blast+
  show ?thesis
    using colorado_gate [of lib now rows] michigan_gate [of lib rows] ontario_gate [of lib records]
      alberta_gate [of lib rows] bc_gate [of rows] saskatchewan_gate [of lib rows]
      federal_gate [of table] jamaica_gate [of lib table] g
    by (intro conjI) assumption+
qed

lemma denver_gate:
  "str_truthy (opt_or (clean_string_colorado (row_get denver_row ''Facility Name''))
                      (clean_string_colorado (row_get denver_row ''DBA'')))"
  "str_truthy (clean_string_colorado (row_get denver_row ''License Number''))"
  by (simp_all add: denver_row_def row_get_def clean_string_colorado_def eq_empty_def lower_def
      lower_char_def strip_def is_space_def opt_or_def str_truthy_def)

lemma empty_gate:
  "\<not> str_truthy (clean_string_colorado (row_get Map.empty ''License Number''))"
  by (simp add: row_get_def clean_string_colorado_def str_truthy_def)

theorem completeness_gates_witness:
  "length (scrape_rows_colorado test_lib (2024, 3, 20) [denver_row, Map.empty]) = 1 \<and>
   length (scrape_rows_alberta test_lib [Map.empty]) = 1"
proof -
  obtain d1 where d1: "transform_row_to_schema_colorado test_lib (2024, 3, 20) denver_row = Inr d1"
    by (simp add: transform_row_to_schema_colorado_def Let_def)
  obtain d2 where d2: "transform_row_to_schema_colorado test_lib (2024, 3, 20) Map.empty = Inr d2"
    by (simp add: transform_row_to_schema_colorado_def Let_def)
  obtain d3 where d3: "transform_row_to_schema_alberta test_lib Map.empty = Inr d3"
    by (simp add: transform_row_to_schema_alberta_def Let_def)
  note t1 = completeness_gates [of test_lib "(2024, 3, 20)" "[denver_row, Map.empty]" _ _
      denver_row d1]
  note t2 = completeness_gates [of test_lib "(2024, 3, 20)" "[Map.empty]" _ _ Map.empty d2]
  from t1 [THEN conjunct2, THEN conjunct2, THEN conjunct2, THEN conjunct2, THEN conjunct2, THEN conjunct2, THEN conjunct2, THEN conjunct2, THEN conjunct1, rule_format, OF d1] denver_gate
  have g1: "doc_truthy d1 ''business_name''" "doc_truthy d1 ''license_number''"
    by simp_all
  from t2 [THEN conjunct2, THEN conjunct2, THEN conjunct2, THEN conjunct2, THEN conjunct2, THEN conjunct2, THEN conjunct2, THEN conjunct2, THEN conjunct1, rule_format, OF d2] empty_gate
  have g2: "\<not> doc_truthy d2 ''license_number''"
    by simp
  from t1 have "scrape_rows_colorado test_lib (2024, 3, 20) [denver_row, Map.empty] =
     filter (\<lambda>d. doc_truthy d ''business_name'' \<and> doc_truthy d ''license_number'')
       (successes (transform_row_to_schema_colorado test_lib (2024, 3, 20)) [denver_row, Map.empty])"
    by (rule conjunct1)
  also have "\<dots> = [d1]"
    using d1 d2 g1 g2 by (simp add: successes_simps)
  finally have a: "length (scrape_rows_colorado test_lib (2024, 3, 20) [denver_row, Map.empty]) = 1"
    by simp
  from t2 have "scrape_rows_alberta test_lib [Map.empty] =
      successes (transform_row_to_schema_alberta test_lib) [Map.empty]"
    by (rule conjunct2 [THEN conjunct2, THEN conjunct2, THEN conjunct1])
  also have "\<dots> = [d3]"
    using d3 by (simp add: successes_simps)
  finally have b: "length (scrape_rows_alberta test_lib [Map.empty]) = 1"
    by simp
  from a b show ?thesis by blast
qed










end
